theory Spec2Isabelle
  imports Complex_Main "HOL-Library.AList" "HOL-Library.Char_ord" "HOL-Library.List_Lexorder"
    "HOL-Library.Product_Lexorder"
begin

section \<open>Floating-point numbers\<close>

text \<open>
  A Python \<open>float\<close> and a NumPy \<open>float64\<close> are IEEE 754 binary64 numbers: a finite
  value, an infinity or NaN. A finite value is the real number that it stands for; the two
  zeros are one value here (they compare equal). The result of an operation is the exact
  result rounded to the nearest representable number, ties to even: 53 bits of precision,
  exponents from -1022 to 1023, gradual underflow, and an infinity when the rounded
  magnitude is above the largest finite number. NumPy signals overflow, an invalid
  operation and a division by zero with a warning, not with an exception.
\<close>

datatype f64 = Fin real | PInf | NInf | NaN

text \<open>The nearest integer, ties to the even one.\<close>

definition rne :: "real \<Rightarrow> int" where
  "rne x =
     (let f = \<lfloor>x\<rfloor>; d = x - of_int f in
      if d < 1 / 2 then f else if 1 / 2 < d then f + 1 else if even f then f else f + 1)"

text \<open>
  Powers of two with an integer exponent, the exponent of the unit in the last place of
  \<open>x\<close>, \<open>x\<close> rounded to a multiple of that unit, and the largest finite number.
\<close>

definition pow2 :: "int \<Rightarrow> real" where
  "pow2 e = 2 powr of_int e"

definition ulp_exponent :: "real \<Rightarrow> int" where
  "ulp_exponent x = max \<lfloor>log 2 \<bar>x\<bar>\<rfloor> (- 1022) - 52"

definition round_f64 :: "real \<Rightarrow> real" where
  "round_f64 x =
     (if x = 0 then 0
      else of_int (rne (x / pow2 (ulp_exponent x))) * pow2 (ulp_exponent x))"

definition max_f64 :: real where
  "max_f64 = (2 ^ 53 - 1) * 2 ^ 971"

definition fl :: "real \<Rightarrow> f64" where
  "fl x =
     (let y = round_f64 x in
      if max_f64 < y then PInf else if y < - max_f64 then NInf else Fin y)"

text \<open>
  Multiplication, addition, division and square root. A zero divisor counts as \<open>+0.0\<close>:
  the only divisor in the code is a product of two norms.
\<close>

fun fmul :: "f64 \<Rightarrow> f64 \<Rightarrow> f64" where
  "fmul (Fin x) (Fin y) = fl (x * y)"
| "fmul NaN b = NaN"
| "fmul a NaN = NaN"
| "fmul (Fin x) PInf = (if x = 0 then NaN else if 0 < x then PInf else NInf)"
| "fmul (Fin x) NInf = (if x = 0 then NaN else if 0 < x then NInf else PInf)"
| "fmul PInf (Fin y) = (if y = 0 then NaN else if 0 < y then PInf else NInf)"
| "fmul NInf (Fin y) = (if y = 0 then NaN else if 0 < y then NInf else PInf)"
| "fmul PInf PInf = PInf"
| "fmul PInf NInf = NInf"
| "fmul NInf PInf = NInf"
| "fmul NInf NInf = PInf"

fun fadd :: "f64 \<Rightarrow> f64 \<Rightarrow> f64" where
  "fadd (Fin x) (Fin y) = fl (x + y)"
| "fadd NaN b = NaN"
| "fadd a NaN = NaN"
| "fadd PInf NInf = NaN"
| "fadd NInf PInf = NaN"
| "fadd PInf b = PInf"
| "fadd NInf b = NInf"
| "fadd a PInf = PInf"
| "fadd a NInf = NInf"

fun fdiv :: "f64 \<Rightarrow> f64 \<Rightarrow> f64" where
  "fdiv (Fin x) (Fin y) =
     (if y = 0 then (if x = 0 then NaN else if 0 < x then PInf else NInf) else fl (x / y))"
| "fdiv NaN b = NaN"
| "fdiv a NaN = NaN"
| "fdiv (Fin x) b = Fin 0"
| "fdiv PInf (Fin y) = (if 0 \<le> y then PInf else NInf)"
| "fdiv NInf (Fin y) = (if 0 \<le> y then NInf else PInf)"
| "fdiv a b = NaN"

fun fsqrt :: "f64 \<Rightarrow> f64" where
  "fsqrt (Fin x) = (if x < 0 then NaN else fl (sqrt x))"
| "fsqrt PInf = PInf"
| "fsqrt a = NaN"

section \<open>Values, exceptions and the document store\<close>

text \<open>
  Documents and the dictionaries of the pipeline state are Python dictionaries with values
  of any type (\<open>Dict[str, Any]\<close>). A dictionary is an association list: a lookup is
  \<open>map_of\<close>, an assignment \<open>d[k] = v\<close> is \<open>AList.update\<close>, which overwrites the
  entry in place or appends a new one, as Python does. A string is its sequence of
  characters; a character outside ASCII is its sequence of UTF-8 bytes, so that
  \<open>startswith\<close>, \<open>replace\<close> and the comparison of two strings are those of Python.
\<close>

datatype pyval =
    PNone
  | PBool bool
  | PInt int
  | PFloat f64
  | PStr string
  | PList "pyval list"
  | PDict "(string \<times> pyval) list"

type_synonym pydict = "(string \<times> pyval) list"

text \<open>A raised exception, carrying the text that \<open>str(e)\<close> gives.\<close>

datatype exn = Exn string

fun exn_str :: "exn \<Rightarrow> string" where
  "exn_str (Exn m) = m"

type_synonym vector = "f64 list"

text \<open>
  The \<open>_id\<close> of a stored document: an \<open>ObjectId\<close> that the store generated on insert, or
  a plain string that the writer chose. \<open>str(_id)\<close> forgets the difference; a filter
  \<open>{"_id": x}\<close> does not: a string never equals an \<open>ObjectId\<close>.
\<close>

datatype doc_id = ObjectId string | StrId string

fun str_id :: "doc_id \<Rightarrow> string" where
  "str_id (ObjectId h) = h"
| "str_id (StrId s) = s"

text \<open>
  A collection: its documents in the store's iteration order, and \<open>fault\<close>, the exception
  that every call on the collection raises while the store is unreachable.
\<close>

record 'd collection =
  docs :: "'d list"
  fault :: "exn option"

definition count_documents :: "'d collection \<Rightarrow> exn + nat" where
  "count_documents c = (case fault c of Some e \<Rightarrow> Inl e | None \<Rightarrow> Inr (length (docs c)))"

definition find_coll :: "'d collection \<Rightarrow> ('d \<Rightarrow> bool) \<Rightarrow> exn + 'd list" where
  "find_coll c p = (case fault c of Some e \<Rightarrow> Inl e | None \<Rightarrow> Inr (filter p (docs c)))"

text \<open>
  \<open>find_one\<close>, \<open>insert_one\<close>, \<open>update_one\<close> and \<open>delete_one\<close>. The write calls return the
  new collection; \<open>update_one\<close> and \<open>delete_one\<close> touch the first matching document only
  and also return \<open>modified_count\<close> and \<open>deleted_count\<close>.
\<close>

definition find_one :: "'d collection \<Rightarrow> ('d \<Rightarrow> bool) \<Rightarrow> exn + 'd option" where
  "find_one c p =
     (case fault c of
        Some e \<Rightarrow> Inl e
      | None \<Rightarrow> Inr (case filter p (docs c) of [] \<Rightarrow> None | d # _ \<Rightarrow> Some d))"

definition insert_one :: "'d collection \<Rightarrow> 'd \<Rightarrow> exn + 'd collection" where
  "insert_one c d =
     (case fault c of Some e \<Rightarrow> Inl e | None \<Rightarrow> Inr (c\<lparr>docs := docs c @ [d]\<rparr>))"

fun update_first :: "('d \<Rightarrow> bool) \<Rightarrow> ('d \<Rightarrow> 'd) \<Rightarrow> 'd list \<Rightarrow> 'd list" where
  "update_first p f [] = []"
| "update_first p f (d # ds) = (if p d then f d # ds else d # update_first p f ds)"

fun delete_first :: "('d \<Rightarrow> bool) \<Rightarrow> 'd list \<Rightarrow> 'd list" where
  "delete_first p [] = []"
| "delete_first p (d # ds) = (if p d then ds else d # delete_first p ds)"

definition update_one ::
  "'d collection \<Rightarrow> ('d \<Rightarrow> bool) \<Rightarrow> ('d \<Rightarrow> 'd) \<Rightarrow> exn + ('d collection \<times> nat)" where
  "update_one c p f =
     (case fault c of
        Some e \<Rightarrow> Inl e
      | None \<Rightarrow>
          Inr (c\<lparr>docs := update_first p f (docs c)\<rparr>,
               (case filter p (docs c) of [] \<Rightarrow> 0 | d # _ \<Rightarrow> if f d = d then 0 else 1)))"

definition delete_one :: "'d collection \<Rightarrow> ('d \<Rightarrow> bool) \<Rightarrow> exn + ('d collection \<times> nat)" where
  "delete_one c p =
     (case fault c of
        Some e \<Rightarrow> Inl e
      | None \<Rightarrow>
          Inr (c\<lparr>docs := delete_first p (docs c)\<rparr>,
               (if filter p (docs c) = [] then 0 else 1)))"

text \<open>
  \<open>cursor.to_list(length=n)\<close>: a negative length raises \<open>ValueError\<close> before the store is
  asked; otherwise at most \<open>n\<close> documents are read. \<open>cursor.limit(n)\<close>: no limit for
  \<open>n = 0\<close>, and a negative \<open>n\<close> limits like \<open>-n\<close> (the store then answers in a single
  batch).
\<close>

definition to_list :: "int \<Rightarrow> exn + 'd list \<Rightarrow> exn + 'd list" where
  "to_list n r =
     (if n < 0 then Inl (Exn ''length must be non-negative'')
      else case r of Inl e \<Rightarrow> Inl e | Inr ds \<Rightarrow> Inr (take (nat n) ds))"

definition cursor_limit :: "int \<Rightarrow> 'd list \<Rightarrow> 'd list" where
  "cursor_limit n ds = (if n = 0 then ds else take (nat \<bar>n\<bar>) ds)"

text \<open>Python's slice \<open>xs[:k]\<close>: a negative \<open>k\<close> drops the last \<open>-k\<close> elements.\<close>

definition py_take :: "int \<Rightarrow> 'a list \<Rightarrow> 'a list" where
  "py_take k xs = (if 0 \<le> k then take (nat k) xs else take (length xs - nat (- k)) xs)"

text \<open>
  A stable sort in descending order of a key that is totally ordered, as
  \<open>list.sort(reverse=True)\<close> does it: reverse the list, sort it, reverse it again. Equal
  keys keep their original order.
\<close>

definition sort_reverse :: "('a \<Rightarrow> 'k::linorder) \<Rightarrow> 'a list \<Rightarrow> 'a list" where
  "sort_reverse f xs = rev (sort_key f (rev xs))"


section \<open>Embedding service (app/services/embedding.py)\<close>

text \<open>
  \<open>encode\<close> is the sentence-transformer model, \<open>None\<close> when it raises or was not loaded.
  \<open>get_embedding\<close> catches every exception and returns the zero vector of dimension 384.
\<close>

definition get_embedding :: "(string \<Rightarrow> vector option) \<Rightarrow> string \<Rightarrow> vector" where
  "get_embedding encode text =
     (case encode text of Some v \<Rightarrow> v | None \<Rightarrow> replicate 384 (Fin 0))"

text \<open>
  \<open>np.dot\<close> of two one-dimensional arrays raises \<open>ValueError\<close> when the lengths differ;
  otherwise it is the sum of the products, every product and every partial sum rounded,
  summed here from the left. \<open>np.linalg.norm\<close> of a one-dimensional array is
  \<open>sqrt(x.dot(x))\<close>.
\<close>

definition dot_sum :: "vector \<Rightarrow> vector \<Rightarrow> f64" where
  "dot_sum v1 v2 = foldl (\<lambda>acc (a, b). fadd acc (fmul a b)) (Fin 0) (zip v1 v2)"

definition np_dot :: "vector \<Rightarrow> vector \<Rightarrow> exn + f64" where
  "np_dot v1 v2 =
     (if length v1 = length v2 then Inr (dot_sum v1 v2)
      else Inl (Exn ''shapes not aligned''))"

definition np_norm :: "vector \<Rightarrow> f64" where
  "np_norm v = fsqrt (dot_sum v v)"

definition cosine_similarity :: "vector \<Rightarrow> vector \<Rightarrow> exn + f64" where
  "cosine_similarity vec1 vec2 =
     (case np_dot vec1 vec2 of
        Inl e \<Rightarrow> Inl e
      | Inr dot_product \<Rightarrow>
          (let norm_vec1 = np_norm vec1; norm_vec2 = np_norm vec2 in
           if norm_vec1 = Fin 0 \<or> norm_vec2 = Fin 0 then Inr (Fin 0)
           else Inr (fdiv dot_product (fmul norm_vec1 norm_vec2))))"

text \<open>The same function of app/services/embeddings.py.\<close>

definition cosine_similarity_score :: "vector \<Rightarrow> vector \<Rightarrow> exn + f64" where
  "cosine_similarity_score v1 v2 =
     (case np_dot v1 v2 of
        Inl e \<Rightarrow> Inl e
      | Inr dot_product \<Rightarrow>
          (let norm_v1 = np_norm v1; norm_v2 = np_norm v2 in
           if norm_v1 = Fin 0 \<or> norm_v2 = Fin 0 then Inr (Fin 0)
           else Inr (fdiv dot_product (fmul norm_v1 norm_v2))))"

section \<open>Knowledge service (app/services/knowledge.py)\<close>

text \<open>
  A \<open>KnowledgeChunk\<close> (the timestamps of the base schema play no part in retrieval and
  are left out) and a \<open>KnowledgeQuery\<close>. A stored chunk is its \<open>_id\<close> and its fields.
\<close>

record knowledge_chunk =
  chunk_id :: string
  source :: string
  content :: string
  vector_embedding :: "vector option"
  metadata :: pydict

record knowledge_query =
  query :: string
  top_k :: int
  filter_metadata :: "pydict option"

type_synonym chunk_doc = "doc_id \<times> knowledge_chunk"

section \<open>Memory documents (app/memory/service.py, app/schemas/memory.py)\<close>

text \<open>
  The fields of a stored memory. \<open>mem_metadata\<close> and \<open>mem_vector_embedding\<close> are \<open>None\<close>
  when the document has no such key; \<open>mem_extra\<close> holds what the document has besides
  the fields of the schema. A stored memory is its \<open>_id\<close> and its fields; a memory handed
  to a caller carries \<open>id = str(_id)\<close> instead.
\<close>

record mem_fields =
  mem_character_id :: string
  mem_content :: string
  mem_source :: string
  importance :: int
  mem_metadata :: "pydict option"
  created_at :: nat
  last_accessed :: nat
  access_count :: int
  mem_vector_embedding :: "vector option"
  mem_extra :: pydict

type_synonym mem_doc = "doc_id \<times> mem_fields"

type_synonym memory = "string \<times> mem_fields"

text \<open>
  An embedding record; \<open>embedding\<close> is \<open>None\<close> when the key is missing or its value is not
  a list.
\<close>

record emb_doc =
  emb_memory_id :: string
  emb_character_id :: string
  embedding :: "vector option"
  emb_created_at :: nat

record memory_db =
  memories :: "mem_doc collection"
  embeddings :: "emb_doc collection"

section \<open>External collaborators\<close>

text \<open>
  What the services do not compute themselves: the embedding model (\<open>None\<close> when it
  raises or was not loaded), the store's answer to the question whether a document
  satisfies a filter, the clock, the \<open>ObjectId\<close> that the store generates for the next
  inserted memory, the store's native vector search (the outcome of the whole aggregation
  pipeline for a query vector, character id and limit), the store's case-insensitive
  regular expressions (an exception for a pattern that does not compile), the generation
  provider (system prompt and user prompt to the text of the first choice, or an
  exception), Python's \<open>str\<close> on a value as an f-string prints it, the ISO format
  of a time, what \<open>list.sort(reverse=True)\<close> makes of keys that Python does not order
  totally (the positions of the elements in the order in which it leaves them, or the
  exception that a comparison raises), and \<open>str.title\<close> and \<open>str.capitalize\<close> on a
  string that is not ASCII, which follow the Unicode character database.
\<close>

record env =
  encode :: "string \<Rightarrow> vector option"
  satisfies :: "pydict \<Rightarrow> chunk_doc \<Rightarrow> bool"
  utcnow :: nat
  new_object_id :: string
  vector_search :: "vector \<Rightarrow> string \<Rightarrow> int \<Rightarrow> exn + mem_doc list"
  regex :: "string \<Rightarrow> exn + (string \<Rightarrow> bool)"
  llm :: "string \<Rightarrow> string \<Rightarrow> exn + string"
  str_of :: "pyval \<Rightarrow> string"
  isoformat :: "nat \<Rightarrow> string"
  list_sort :: "pyval list \<Rightarrow> exn + nat list"
  unicode_title :: "string \<Rightarrow> string"
  unicode_capitalize :: "string \<Rightarrow> string"

section \<open>Knowledge retrieval\<close>

text \<open>\<open>filter_query[f"metadata.{key}"] = value\<close> for every item of a non-empty filter.\<close>

definition filter_query :: "knowledge_query \<Rightarrow> pydict" where
  "filter_query q =
     (case filter_metadata q of
        None \<Rightarrow> []
      | Some fm \<Rightarrow> foldl (\<lambda>fq (key, val). AList.update (''metadata.'' @ key) val fq) [] fm)"

text \<open>\<open>result["id"] = str(result.pop("_id"))\<close>, then \<open>KnowledgeChunk(**result)\<close>.\<close>

definition to_chunk :: "chunk_doc \<Rightarrow> knowledge_chunk" where
  "to_chunk d = (snd d)\<lparr>chunk_id := str_id (fst d)\<rparr>"

text \<open>
  The scoring loop: a chunk with a non-empty embedding gets its cosine similarity to the
  query written into its metadata; a mismatch of dimensions raises.
\<close>

definition score_chunk :: "vector \<Rightarrow> knowledge_chunk \<Rightarrow> exn + knowledge_chunk" where
  "score_chunk query_embedding chunk =
     (case vector_embedding chunk of
        None \<Rightarrow> Inr chunk
      | Some v \<Rightarrow>
          if v = [] then Inr chunk
          else (case cosine_similarity query_embedding v of
                  Inl e \<Rightarrow> Inl e
                | Inr similarity \<Rightarrow>
                    Inr (chunk\<lparr>metadata :=
                      AList.update ''similarity_score'' (PFloat similarity) (metadata chunk)\<rparr>)))"

fun score_chunks :: "vector \<Rightarrow> knowledge_chunk list \<Rightarrow> exn + knowledge_chunk list" where
  "score_chunks qe [] = Inr []"
| "score_chunks qe (c # cs) =
     (case score_chunk qe c of
        Inl e \<Rightarrow> Inl e
      | Inr c' \<Rightarrow> (case score_chunks qe cs of Inl e \<Rightarrow> Inl e | Inr cs' \<Rightarrow> Inr (c' # cs')))"

text \<open>
  Python's order of two sort keys. Numbers (\<open>bool\<close>, \<open>int\<close>, \<open>float\<close>) compare by value,
  except that NaN is neither below nor above anything; strings compare character by
  character; a comparison of a number with a string, and every comparison of \<open>None\<close> or
  of a dictionary, raises \<open>TypeError\<close>. \<open>num_key\<close> puts the numbers other than NaN in
  their order: minus infinity, the finite values, plus infinity.
\<close>

fun num_key :: "pyval \<Rightarrow> (int \<times> real) option" where
  "num_key (PFloat (Fin r)) = Some (0, r)"
| "num_key (PFloat PInf) = Some (1, 0)"
| "num_key (PFloat NInf) = Some (- 1, 0)"
| "num_key (PFloat NaN) = None"
| "num_key (PInt i) = Some (0, real_of_int i)"
| "num_key (PBool b) = Some (0, if b then 1 else 0)"
| "num_key v = None"

definition num_of :: "pyval \<Rightarrow> int \<times> real" where
  "num_of v = (case num_key v of Some n \<Rightarrow> n | None \<Rightarrow> (0, 0))"

fun is_str :: "pyval \<Rightarrow> bool" where
  "is_str (PStr s) = True"
| "is_str v = False"

fun str_of_key :: "pyval \<Rightarrow> string" where
  "str_of_key (PStr s) = s"
| "str_of_key v = []"

fun unordered :: "pyval \<Rightarrow> bool" where
  "unordered PNone = True"
| "unordered (PDict d) = True"
| "unordered v = False"

text \<open>
  The list that \<open>order\<close> describes: \<open>order\<close> gives, for every position of the result, the
  position in \<open>xs\<close> of the element that stands there. A sort permutes its list, so an
  \<open>order\<close> that is no permutation of the positions describes no sort and leaves \<open>xs\<close>.
\<close>

definition apply_order :: "nat list \<Rightarrow> 'a list \<Rightarrow> 'a list" where
  "apply_order order xs = (if sort order = [0..<length xs] then map ((!) xs) order else xs)"

text \<open>
  \<open>xs.sort(key=f, reverse=True)\<close>. A list of fewer than two elements is left as it is
  without a comparison. Keys that are all numbers other than NaN, or all strings, are
  sorted in descending order, stably. Every element of a longer list is compared at least
  once, so \<open>None\<close> or a dictionary among the keys raises \<open>TypeError\<close>; so do numbers
  other than NaN mixed with strings, because no sort can order the two kinds without
  comparing a number with a string. What the sort makes of other keys (a NaN, lists)
  depends on the comparisons that the algorithm happens to make, and is the answer of
  \<open>list_sort\<close>.
\<close>

definition py_sort_reverse :: "env \<Rightarrow> ('a \<Rightarrow> pyval) \<Rightarrow> 'a list \<Rightarrow> exn + 'a list" where
  "py_sort_reverse env f xs =
     (let keys = map f xs in
      if length xs < 2 then Inr xs
      else if list_all (\<lambda>k. num_key k \<noteq> None) keys
        then Inr (sort_reverse (\<lambda>x. num_of (f x)) xs)
      else if list_all is_str keys
        then Inr (sort_reverse (\<lambda>x. str_of_key (f x)) xs)
      else if list_ex unordered keys \<or> list_all (\<lambda>k. num_key k \<noteq> None \<or> is_str k) keys
        then Inl (Exn ''not supported between instances'')
      else (case list_sort env keys of
              Inl e \<Rightarrow> Inl e
            | Inr order \<Rightarrow> Inr (apply_order order xs)))"

text \<open>The sort key of a chunk, \<open>c.metadata.get("similarity_score", 0)\<close>, and the sort.\<close>

definition chunk_score :: "knowledge_chunk \<Rightarrow> pyval" where
  "chunk_score c = (case map_of (metadata c) ''similarity_score'' of None \<Rightarrow> PInt 0 | Some v \<Rightarrow> v)"

definition sort_chunks :: "env \<Rightarrow> knowledge_chunk list \<Rightarrow> exn + knowledge_chunk list" where
  "sort_chunks env chunks = py_sort_reverse env chunk_score chunks"

text \<open>
  The body of the \<open>try\<close> block of \<open>retrieve_similar\<close>: fetch at most 100 documents that
  satisfy the filter and score them (\<open>scored_chunks\<close>); then sort and cut to \<open>top_k\<close>.
\<close>

definition scored_chunks ::
  "env \<Rightarrow> chunk_doc collection \<Rightarrow> knowledge_query \<Rightarrow> vector
     \<Rightarrow> exn + knowledge_chunk list" where
  "scored_chunks env coll q query_embedding =
     (case to_list 100 (find_coll coll (satisfies env (filter_query q))) of
        Inl e \<Rightarrow> Inl e
      | Inr results \<Rightarrow> score_chunks query_embedding (map to_chunk results))"

definition retrieve_similar_try ::
  "env \<Rightarrow> chunk_doc collection \<Rightarrow> knowledge_query \<Rightarrow> vector
     \<Rightarrow> exn + knowledge_chunk list" where
  "retrieve_similar_try env coll q query_embedding =
     (case scored_chunks env coll q query_embedding of
        Inl e \<Rightarrow> Inl e
      | Inr scored \<Rightarrow>
          (case sort_chunks env scored of
             Inl e \<Rightarrow> Inl e
           | Inr chunks \<Rightarrow> Inr (py_take (top_k q) chunks)))"

text \<open>
  \<open>retrieve_similar\<close>: the count of the collection is read outside the \<open>try\<close> block, so
  its exception reaches the caller; every exception of the block gives the empty list.
\<close>

definition retrieve_similar ::
  "env \<Rightarrow> chunk_doc collection \<Rightarrow> knowledge_query \<Rightarrow> exn + knowledge_chunk list" where
  "retrieve_similar env coll q =
     (let query_embedding = get_embedding (encode env) (query q) in
      case count_documents coll of
        Inl e \<Rightarrow> Inl e
      | Inr count \<Rightarrow>
          (case retrieve_similar_try env coll q query_embedding of
             Inl e \<Rightarrow> Inr []
           | Inr chunks \<Rightarrow> Inr chunks))"

section \<open>Memory service (app/memory/service.py)\<close>

text \<open>ASCII letters and their cases.\<close>

definition lower_letters :: string where
  "lower_letters = ''abcdefghijklmnopqrstuvwxyz''"

definition upper_letters :: string where
  "upper_letters = ''ABCDEFGHIJKLMNOPQRSTUVWXYZ''"

definition is_alpha :: "char \<Rightarrow> bool" where
  "is_alpha c = (c \<in> set lower_letters \<or> c \<in> set upper_letters)"

definition to_lower :: "char \<Rightarrow> char" where
  "to_lower c = (case map_of (zip upper_letters lower_letters) c of Some l \<Rightarrow> l | None \<Rightarrow> c)"

definition to_upper :: "char \<Rightarrow> char" where
  "to_upper c = (case map_of (zip lower_letters upper_letters) c of Some u \<Rightarrow> u | None \<Rightarrow> c)"

definition is_ascii :: "string \<Rightarrow> bool" where
  "is_ascii s = list_all (\<lambda>c. of_char c < (128 :: nat)) s"

text \<open>
  \<open>ObjectId(memory_id)\<close> accepts a string of 24 hexadecimal digits and raises on any
  other string; \<open>str\<close> of an \<open>ObjectId\<close> is in lower case.
\<close>

definition is_hex_digit :: "char \<Rightarrow> bool" where
  "is_hex_digit c = (c \<in> set ''0123456789abcdefABCDEF'')"

definition parse_object_id :: "string \<Rightarrow> exn + doc_id" where
  "parse_object_id s =
     (if length s = 24 \<and> list_all is_hex_digit s then Inr (ObjectId (map to_lower s))
      else Inl (Exn ''not a valid ObjectId''))"

text \<open>
  \<open>create_embedding\<close> re-raises what \<open>get_embedding\<close> raises; \<open>get_embedding\<close> raises
  nothing, so the handler is never entered.
\<close>

definition create_embedding :: "env \<Rightarrow> string \<Rightarrow> vector" where
  "create_embedding env text = get_embedding (encode env) text"

text \<open>
  Every operation returns its result, or the exception that it raises, together with the
  store as it is left. \<open>create_memory\<close> inserts the memory, then the embedding record
  that carries \<open>str\<close> of the new \<open>_id\<close>.
\<close>

definition create_memory ::
  "env \<Rightarrow> memory_db \<Rightarrow> string \<Rightarrow> string \<Rightarrow> string \<Rightarrow> int \<Rightarrow> pydict option
     \<Rightarrow> (exn + string) \<times> memory_db" where
  "create_memory env db cid text src imp md =
     (let memory = \<lparr>mem_character_id = cid, mem_content = text, mem_source = src,
            importance = imp, mem_metadata = Some (case md of Some m \<Rightarrow> m | None \<Rightarrow> []),
            created_at = utcnow env, last_accessed = utcnow env, access_count = 0,
            mem_vector_embedding = None, mem_extra = []\<rparr>
      in case insert_one (memories db) (ObjectId (new_object_id env), memory) of
           Inl e \<Rightarrow> (Inl e, db)
         | Inr ms \<Rightarrow>
             (let db1 = db\<lparr>memories := ms\<rparr>;
                  memory_id = new_object_id env;
                  embedding_doc = \<lparr>emb_memory_id = memory_id, emb_character_id = cid,
                    embedding = Some (create_embedding env text), emb_created_at = utcnow env\<rparr>
              in case insert_one (embeddings db1) embedding_doc of
                   Inl e \<Rightarrow> (Inl e, db1)
                 | Inr es \<Rightarrow> (Inr memory_id, db1\<lparr>embeddings := es\<rparr>)))"

text \<open>
  \<open>get_memory\<close>: look the id up as an \<open>ObjectId\<close>; when that raises (the string is no
  \<open>ObjectId\<close>, or the store is down) look it up as a string. A found memory has its
  access statistics updated and is returned as it was read. Every exception gives \<open>None\<close>.
\<close>

definition find_memory :: "memory_db \<Rightarrow> string \<Rightarrow> exn + mem_doc option" where
  "find_memory db memory_id =
     (case (case parse_object_id memory_id of
              Inl e \<Rightarrow> Inl e
            | Inr object_id \<Rightarrow> find_one (memories db) (\<lambda>d. fst d = object_id)) of
        Inl e \<Rightarrow> find_one (memories db) (\<lambda>d. fst d = StrId memory_id)
      | Inr r \<Rightarrow> Inr r)"

definition touch :: "nat \<Rightarrow> mem_doc \<Rightarrow> mem_doc" where
  "touch now d = (fst d, (snd d)\<lparr>last_accessed := now, access_count := access_count (snd d) + 1\<rparr>)"

definition get_memory :: "env \<Rightarrow> memory_db \<Rightarrow> string \<Rightarrow> memory option \<times> memory_db" where
  "get_memory env db memory_id =
     (case find_memory db memory_id of
        Inl e \<Rightarrow> (None, db)
      | Inr None \<Rightarrow> (None, db)
      | Inr (Some result) \<Rightarrow>
          (case update_one (memories db) (\<lambda>d. fst d = fst result) (touch (utcnow env)) of
             Inl e \<Rightarrow> (None, db)
           | Inr (ms, n) \<Rightarrow> (Some (str_id (fst result), snd result), db\<lparr>memories := ms\<rparr>)))"

text \<open>\<open>memory["metadata"]["similarity_score"] = score\<close>, with \<open>{}\<close> for a missing metadata.\<close>

definition set_similarity :: "f64 \<Rightarrow> mem_fields \<Rightarrow> mem_fields" where
  "set_similarity score f =
     f\<lparr>mem_metadata := Some (AList.update ''similarity_score'' (PFloat score)
          (case mem_metadata f of Some m \<Rightarrow> m | None \<Rightarrow> []))\<rparr>"

text \<open>
  First rung: the store's native vector search. A returned memory with a
  \<open>vector_embedding\<close> gets its score; then the access statistics are updated with the
  filter \<open>{"_id": memory["id"]}\<close>, a string. \<open>None\<close> stands for falling through to the
  manual scan: no results, or any exception.
\<close>

definition score_result :: "vector \<Rightarrow> mem_doc \<Rightarrow> exn + memory" where
  "score_result query_embedding d =
     (case mem_vector_embedding (snd d) of
        None \<Rightarrow> Inr (str_id (fst d), snd d)
      | Some v \<Rightarrow>
          (case cosine_similarity query_embedding v of
             Inl e \<Rightarrow> Inl e
           | Inr similarity \<Rightarrow> Inr (str_id (fst d), set_similarity similarity (snd d))))"

fun score_results :: "vector \<Rightarrow> mem_doc list \<Rightarrow> exn + memory list" where
  "score_results qe [] = Inr []"
| "score_results qe (d # ds) =
     (case score_result qe d of
        Inl e \<Rightarrow> Inl e
      | Inr r \<Rightarrow> (case score_results qe ds of Inl e \<Rightarrow> Inl e | Inr rs \<Rightarrow> Inr (r # rs)))"

fun touch_all :: "nat \<Rightarrow> mem_doc collection \<Rightarrow> memory list \<Rightarrow> exn + mem_doc collection" where
  "touch_all now c [] = Inr c"
| "touch_all now c (m # ms) =
     (case update_one c (\<lambda>d. fst d = StrId (fst m)) (touch now) of
        Inl e \<Rightarrow> Inl e
      | Inr (c', n) \<Rightarrow> touch_all now c' ms)"

definition vector_rung ::
  "env \<Rightarrow> memory_db \<Rightarrow> string \<Rightarrow> vector \<Rightarrow> int \<Rightarrow> memory list option \<times> memory_db" where
  "vector_rung env db cid query_embedding limit =
     (case to_list limit (vector_search env query_embedding cid limit) of
        Inl e \<Rightarrow> (None, db)
      | Inr [] \<Rightarrow> (None, db)
      | Inr (r # rs) \<Rightarrow>
          (case score_results query_embedding (r # rs) of
             Inl e \<Rightarrow> (None, db)
           | Inr results \<Rightarrow>
               (case touch_all (utcnow env) (memories db) results of
                  Inl e \<Rightarrow> (None, db)
                | Inr ms \<Rightarrow> (Some results, db\<lparr>memories := ms\<rparr>))))"

text \<open>
  Second rung: the manual scan. Every embedding record of the character is scored, the
  scores are sorted with \<open>sort(key=..., reverse=True)\<close> and cut to \<open>limit\<close>, and the
  memory of each remaining record is fetched with \<open>get_memory\<close>; a record whose memory is
  not found is dropped.
\<close>

fun scan_embeddings :: "vector \<Rightarrow> emb_doc list \<Rightarrow> exn + (string \<times> f64) list" where
  "scan_embeddings qe [] = Inr []"
| "scan_embeddings qe (d # ds) =
     (case embedding d of
        None \<Rightarrow> scan_embeddings qe ds
      | Some v \<Rightarrow>
          (case cosine_similarity qe v of
             Inl e \<Rightarrow> Inl e
           | Inr similarity \<Rightarrow>
               (case scan_embeddings qe ds of
                  Inl e \<Rightarrow> Inl e
                | Inr rest \<Rightarrow> Inr ((emb_memory_id d, similarity) # rest))))"

fun fetch_memories ::
  "env \<Rightarrow> memory_db \<Rightarrow> (string \<times> f64) list \<Rightarrow> memory list \<times> memory_db" where
  "fetch_memories env db [] = ([], db)"
| "fetch_memories env db (r # rs) =
     (case get_memory env db (fst r) of
        (None, db1) \<Rightarrow> fetch_memories env db1 rs
      | (Some m, db1) \<Rightarrow>
          (case fetch_memories env db1 rs of
             (ms, db2) \<Rightarrow> ((fst m, set_similarity (snd r) (snd m)) # ms, db2)))"

definition manual_rung ::
  "env \<Rightarrow> memory_db \<Rightarrow> string \<Rightarrow> vector \<Rightarrow> int \<Rightarrow> (exn + memory list) \<times> memory_db" where
  "manual_rung env db cid query_embedding limit =
     (case find_coll (embeddings db) (\<lambda>e. emb_character_id e = cid) of
        Inl e \<Rightarrow> (Inl e, db)
      | Inr ds \<Rightarrow>
          (case scan_embeddings query_embedding ds of
             Inl e \<Rightarrow> (Inl e, db)
           | Inr embedding_results \<Rightarrow>
               (case py_sort_reverse env (\<lambda>r. PFloat (snd r)) embedding_results of
                  Inl e \<Rightarrow> (Inl e, db)
                | Inr sorted_results \<Rightarrow>
                    (case fetch_memories env db (py_take limit sorted_results) of
                       (ms, db') \<Rightarrow> (Inr ms, db')))))"

text \<open>
  Third rung: the regular-expression search over the content and the metadata fields
  \<open>topic\<close> and \<open>category\<close>, with \<open>cursor.limit(limit)\<close>.
\<close>

definition field_matches :: "(string \<Rightarrow> bool) \<Rightarrow> pydict option \<Rightarrow> string \<Rightarrow> bool" where
  "field_matches rx md key =
     (case md of
        None \<Rightarrow> False
      | Some m \<Rightarrow>
          (case map_of m key of
             Some (PStr s) \<Rightarrow> rx s
           | Some (PList xs) \<Rightarrow> list_ex (\<lambda>x. case x of PStr s \<Rightarrow> rx s | _ \<Rightarrow> False) xs
           | _ \<Rightarrow> False))"

definition text_search :: "env \<Rightarrow> memory_db \<Rightarrow> string \<Rightarrow> string \<Rightarrow> int \<Rightarrow> exn + memory list" where
  "text_search env db cid q limit =
     (case regex env q of
        Inl e \<Rightarrow> Inl e
      | Inr rx \<Rightarrow>
          (case find_coll (memories db)
                  (\<lambda>d. mem_character_id (snd d) = cid \<and>
                       (rx (mem_content (snd d)) \<or> field_matches rx (mem_metadata (snd d)) ''topic''
                        \<or> field_matches rx (mem_metadata (snd d)) ''category'')) of
             Inl e \<Rightarrow> Inl e
           | Inr ds \<Rightarrow> Inr (map (\<lambda>d. (str_id (fst d), snd d)) (cursor_limit limit ds))))"

text \<open>
  Fourth rung, \<open>get_character_memories\<close>: the memories of the character, optionally of one
  source, in descending order of the sort field, with \<open>cursor.limit(limit)\<close> and
  \<open>to_list(length=limit)\<close>.
\<close>

definition sort_field :: "string \<Rightarrow> mem_doc \<Rightarrow> real" where
  "sort_field sort_by d =
     (if sort_by = ''created_at'' then real (created_at (snd d))
      else if sort_by = ''last_accessed'' then real (last_accessed (snd d))
      else real_of_int (importance (snd d)))"

definition get_character_memories ::
  "memory_db \<Rightarrow> string \<Rightarrow> int \<Rightarrow> string \<Rightarrow> string option \<Rightarrow> exn + memory list" where
  "get_character_memories db cid limit sort_by src =
     (case to_list limit
             (case find_coll (memories db)
                     (\<lambda>d. mem_character_id (snd d) = cid \<and>
                          (case src of
                             None \<Rightarrow> True
                           | Some s \<Rightarrow> s = [] \<or> mem_source (snd d) = s)) of
                Inl e \<Rightarrow> Inl e
              | Inr ds \<Rightarrow> Inr (cursor_limit limit (sort_reverse (sort_field sort_by) ds))) of
        Inl e \<Rightarrow> Inl e
      | Inr results \<Rightarrow> Inr (map (\<lambda>d. (str_id (fst d), snd d)) results))"

text \<open>
  The handler of the outer \<open>try\<close> of \<open>search_memories\<close>: the text search, and the most
  important memories when it finds nothing or raises. The last call is outside every
  \<open>try\<close>.
\<close>

definition text_fallback ::
  "env \<Rightarrow> memory_db \<Rightarrow> string \<Rightarrow> string \<Rightarrow> int \<Rightarrow> exn + memory list" where
  "text_fallback env db cid q limit =
     (case (case text_search env db cid q limit of
              Inl e \<Rightarrow> Inl e
            | Inr results \<Rightarrow>
                if results \<noteq> [] then Inr results
                else get_character_memories db cid limit ''importance'' None) of
        Inl text_error \<Rightarrow> get_character_memories db cid limit ''importance'' None
      | Inr results \<Rightarrow> Inr results)"

definition search_memories ::
  "env \<Rightarrow> memory_db \<Rightarrow> string \<Rightarrow> string \<Rightarrow> int \<Rightarrow> (exn + memory list) \<times> memory_db" where
  "search_memories env db cid q limit =
     (let query_embedding = create_embedding env q in
      case vector_rung env db cid query_embedding limit of
        (Some results, db1) \<Rightarrow> (Inr results, db1)
      | (None, db1) \<Rightarrow>
          (case manual_rung env db1 cid query_embedding limit of
             (Inr ms, db2) \<Rightarrow> (Inr ms, db2)
           | (Inl e, db2) \<Rightarrow> (text_fallback env db2 cid q limit, db2)))"

text \<open>
  \<open>update_memory\<close>: \<open>$set\<close> of the permitted fields on the memory with \<open>_id\<close> equal to the
  string \<open>memory_id\<close>. A field of the schema is set from a value of its type; every other
  key and value is set among the extra fields of the document. When the content is among
  the updates and the memory is found, the embedding record of \<open>memory_id\<close> gets a new
  vector.
\<close>

definition set_extra :: "string \<Rightarrow> pyval \<Rightarrow> mem_fields \<Rightarrow> mem_fields" where
  "set_extra k v f = f\<lparr>mem_extra := AList.update k v (mem_extra f)\<rparr>"

fun set_field :: "string \<times> pyval \<Rightarrow> mem_fields \<Rightarrow> mem_fields" where
  "set_field (k, PStr v) f =
     (if k = ''content'' then f\<lparr>mem_content := v\<rparr>
      else if k = ''source'' then f\<lparr>mem_source := v\<rparr>
      else if k = ''character_id'' then f\<lparr>mem_character_id := v\<rparr>
      else set_extra k (PStr v) f)"
| "set_field (k, PInt v) f =
     (if k = ''importance'' then f\<lparr>importance := v\<rparr>
      else if k = ''access_count'' then f\<lparr>access_count := v\<rparr>
      else set_extra k (PInt v) f)"
| "set_field (k, PDict v) f =
     (if k = ''metadata'' then f\<lparr>mem_metadata := Some v\<rparr> else set_extra k (PDict v) f)"
| "set_field (k, v) f = set_extra k v f"

definition set_fields :: "pydict \<Rightarrow> mem_doc \<Rightarrow> mem_doc" where
  "set_fields updates d = (fst d, foldl (\<lambda>f u. set_field u f) (snd d) updates)"

definition embed_value :: "env \<Rightarrow> pyval \<Rightarrow> vector" where
  "embed_value env v =
     (case v of PStr s \<Rightarrow> create_embedding env s | _ \<Rightarrow> replicate 384 (Fin 0))"

definition safe_updates_of :: "pydict \<Rightarrow> pydict" where
  "safe_updates_of updates =
     filter (\<lambda>u. fst u \<notin> set [''_id'', ''character_id'', ''created_at'']) updates"

definition update_memory ::
  "env \<Rightarrow> memory_db \<Rightarrow> string \<Rightarrow> pydict \<Rightarrow> (exn + bool) \<times> memory_db" where
  "update_memory env db memory_id updates =
     (let safe_updates = safe_updates_of updates
      in case update_one (memories db) (\<lambda>d. fst d = StrId memory_id) (set_fields safe_updates) of
           Inl e \<Rightarrow> (Inl e, db)
         | Inr (ms, modified_count) \<Rightarrow>
             (let db1 = db\<lparr>memories := ms\<rparr> in
              case map_of safe_updates ''content'' of
                None \<Rightarrow> (Inr (0 < modified_count), db1)
              | Some new_content \<Rightarrow>
                  (case find_one (memories db1) (\<lambda>d. fst d = StrId memory_id) of
                     Inl e \<Rightarrow> (Inl e, db1)
                   | Inr None \<Rightarrow> (Inr (0 < modified_count), db1)
                   | Inr (Some memory) \<Rightarrow>
                       (case update_one (embeddings db1) (\<lambda>e. emb_memory_id e = memory_id)
                               (\<lambda>e. e\<lparr>embedding := Some (embed_value env new_content)\<rparr>) of
                          Inl e \<Rightarrow> (Inl e, db1)
                        | Inr (es, n) \<Rightarrow> (Inr (0 < modified_count), db1\<lparr>embeddings := es\<rparr>)))))"

text \<open>
  \<open>delete_memory\<close>: delete the memory with \<open>_id\<close> equal to the string \<open>memory_id\<close> and,
  when one was deleted, the first embedding record of \<open>memory_id\<close>.
\<close>

definition delete_memory :: "memory_db \<Rightarrow> string \<Rightarrow> (exn + bool) \<times> memory_db" where
  "delete_memory db memory_id =
     (case delete_one (memories db) (\<lambda>d. fst d = StrId memory_id) of
        Inl e \<Rightarrow> (Inl e, db)
      | Inr (ms, deleted_count) \<Rightarrow>
          (let db1 = db\<lparr>memories := ms\<rparr> in
           if 0 < deleted_count then
             (case delete_one (embeddings db1) (\<lambda>e. emb_memory_id e = memory_id) of
                Inl e \<Rightarrow> (Inl e, db1)
              | Inr (es, n) \<Rightarrow> (Inr True, db1\<lparr>embeddings := es\<rparr>))
           else (Inr False, db1)))"

section \<open>Pipeline (app/core/langgraph_orchestration.py)\<close>

subsection \<open>Strings\<close>

definition startswith :: "string \<Rightarrow> string \<Rightarrow> bool" where
  "startswith s p = (take (length p) s = p)"

text \<open>
  \<open>s.replace(old, new)\<close> replaces every occurrence of \<open>old\<close>, scanning from the left
  without overlaps.
\<close>

fun replace_from :: "string \<Rightarrow> string \<Rightarrow> string \<Rightarrow> string" where
  "replace_from old new [] = []"
| "replace_from old new (c # cs) =
     (if old \<noteq> [] \<and> startswith (c # cs) old
      then new @ replace_from old new (drop (length old) (c # cs))
      else c # replace_from old new cs)"

definition py_replace :: "string \<Rightarrow> string \<Rightarrow> string \<Rightarrow> string" where
  "py_replace s old new =
     (if old = [] then new @ concat (map (\<lambda>c. c # new) s) else replace_from old new s)"

text \<open>
  \<open>s.title()\<close> on an ASCII string: a letter that follows a letter is put in lower case,
  any other letter in upper case. \<open>s.capitalize()\<close> on an ASCII string: the first
  character in upper case, the rest in lower case. On any other string both are what the
  Unicode character database makes of it.
\<close>

fun title_from :: "bool \<Rightarrow> string \<Rightarrow> string" where
  "title_from previous_is_cased [] = []"
| "title_from previous_is_cased (c # cs) =
     (if is_alpha c
      then (if previous_is_cased then to_lower c else to_upper c) # title_from True cs
      else c # title_from False cs)"

definition py_title :: "env \<Rightarrow> string \<Rightarrow> string" where
  "py_title env s = (if is_ascii s then title_from False s else unicode_title env s)"

definition py_capitalize :: "env \<Rightarrow> string \<Rightarrow> string" where
  "py_capitalize env s =
     (if is_ascii s then (case s of [] \<Rightarrow> [] | c # cs \<Rightarrow> to_upper c # map to_lower cs)
      else unicode_capitalize env s)"

definition py_get :: "pydict \<Rightarrow> string \<Rightarrow> pyval \<Rightarrow> pyval" where
  "py_get d k dflt = (case map_of d k of Some v \<Rightarrow> v | None \<Rightarrow> dflt)"

text \<open>The truth value of an optional string: \<open>None\<close> and the empty string are false.\<close>

definition truthy :: "string option \<Rightarrow> bool" where
  "truthy x = (case x of None \<Rightarrow> False | Some s \<Rightarrow> s \<noteq> [])"

subsection \<open>State and stores\<close>

text \<open>
  \<open>GraphState\<close>. The field \<open>context\<close> of the source is \<open>request_context\<close> here.
\<close>

record graph_state =
  user_input :: string
  character_id :: string
  conversation_id :: "string option"
  prompt_version_id :: "string option"
  request_context :: pydict
  knowledge_context :: "pydict list"
  character_memories :: "pydict list"
  character_info :: pydict
  conversation_history :: "pydict list"
  assembled_context :: string
  response :: string
  updated_memory :: pydict
  completed :: bool
  error :: "string option"

text \<open>
  The database: the knowledge chunks, the memory store, the character records and the
  conversations. A conversation is stored with its messages, \<open>None\<close> when the document
  has no \<open>messages\<close> key.
\<close>

record world =
  knowledge_chunks :: "chunk_doc collection"
  memory_store :: memory_db
  characters :: "(doc_id \<times> pydict) collection"
  conversations :: "(doc_id \<times> pydict list option) collection"

text \<open>\<open>chunk.dict()\<close> and a memory as the dictionary that the pipeline state holds.\<close>

definition chunk_dict :: "knowledge_chunk \<Rightarrow> pydict" where
  "chunk_dict c =
     [(''id'', PStr (chunk_id c)), (''source'', PStr (source c)), (''content'', PStr (content c)),
      (''vector_embedding'',
         (case vector_embedding c of None \<Rightarrow> PNone | Some v \<Rightarrow> PList (map PFloat v))),
      (''metadata'', PDict (metadata c))]"

definition memory_dict :: "memory \<Rightarrow> pydict" where
  "memory_dict m =
     [(''character_id'', PStr (mem_character_id (snd m))),
      (''content'', PStr (mem_content (snd m))),
      (''source'', PStr (mem_source (snd m))),
      (''importance'', PInt (importance (snd m)))]
     @ (case mem_metadata (snd m) of None \<Rightarrow> [] | Some md \<Rightarrow> [(''metadata'', PDict md)])
     @ [(''created_at'', PInt (int (created_at (snd m)))),
        (''last_accessed'', PInt (int (last_accessed (snd m)))),
        (''access_count'', PInt (access_count (snd m)))]
     @ (case mem_vector_embedding (snd m) of
          None \<Rightarrow> []
        | Some v \<Rightarrow> [(''vector_embedding'', PList (map PFloat v))])
     @ mem_extra (snd m)
     @ [(''id'', PStr (fst m))]"

subsection \<open>Knowledge retrieval stage\<close>

definition fallback_character_info :: "string \<Rightarrow> pydict" where
  "fallback_character_info cid =
     [(''name'', PStr cid), (''description'', PStr ''A fictional character''),
      (''personality'', PStr ''Friendly and helpful'')]"

definition character_info_of :: "string \<Rightarrow> pydict option \<Rightarrow> pydict" where
  "character_info_of cid character_result =
     (case character_result of
        Some r \<Rightarrow>
          [(''name'', py_get r ''name'' (PStr cid)),
           (''description'', py_get r ''description'' (PStr [])),
           (''personality'', py_get r ''personality'' (PStr [])),
           (''knowledge_base'', py_get r ''knowledge_base'' (PStr []))]
      | None \<Rightarrow>
          [(''name'', PStr cid), (''description'', PStr ''A fictional character''),
           (''personality'', PStr ''Friendly and helpful''), (''knowledge_base'', PStr [])])"

text \<open>The name that filters the knowledge chunks, and the query built from it.\<close>

definition filter_character_name :: "env \<Rightarrow> string \<Rightarrow> pydict \<Rightarrow> pyval" where
  "filter_character_name env cid info =
     (if startswith cid ''character_''
      then PStr (py_title env (py_replace (py_replace cid ''character_'' []) ''_'' '' ''))
      else py_get info ''name'' (PStr []))"

definition knowledge_query_for :: "env \<Rightarrow> graph_state \<Rightarrow> pydict \<Rightarrow> knowledge_query" where
  "knowledge_query_for env s info =
     \<lparr>query = user_input s @ '' Context: Character is ''
               @ str_of env (py_get info ''name'' (PStr [])) @ ''.'',
      top_k = 5,
      filter_metadata = Some [(''character'', filter_character_name env (character_id s) info)]\<rparr>"

text \<open>The last five messages of the conversation; every failure gives the empty history.\<close>

definition retrieve_history :: "world \<Rightarrow> string option \<Rightarrow> pydict list" where
  "retrieve_history w conv =
     (case conv of
        None \<Rightarrow> []
      | Some c \<Rightarrow>
          if c = [] then []
          else (case find_one (conversations w) (\<lambda>d. fst d = StrId c) of
                  Inl e \<Rightarrow> []
                | Inr None \<Rightarrow> []
                | Inr (Some result) \<Rightarrow>
                    (case snd result of
                       None \<Rightarrow> []
                     | Some messages \<Rightarrow> drop (length messages - 5) messages)))"

text \<open>
  The inner \<open>try\<close> block: the character record, the knowledge query, the similarity search.
  Nothing is written to the state before the last call that can raise has returned.
\<close>

definition knowledge_retrieval_try :: "env \<Rightarrow> world \<Rightarrow> graph_state \<Rightarrow> exn + graph_state" where
  "knowledge_retrieval_try env w s =
     (case find_one (characters w) (\<lambda>d. fst d = StrId (character_id s)) of
        Inl e \<Rightarrow> Inl e
      | Inr character_result \<Rightarrow>
          (let info = character_info_of (character_id s) (map_option snd character_result) in
           case retrieve_similar env (knowledge_chunks w) (knowledge_query_for env s info) of
             Inl e \<Rightarrow> Inl e
           | Inr chunks \<Rightarrow>
               Inr (s\<lparr>knowledge_context := map chunk_dict chunks,
                      character_info := info,
                      conversation_history := retrieve_history w (conversation_id s)\<rparr>)))"

definition knowledge_retrieval :: "env \<Rightarrow> world \<Rightarrow> graph_state \<Rightarrow> graph_state" where
  "knowledge_retrieval env w s =
     (case knowledge_retrieval_try env w s of
        Inr s' \<Rightarrow> s'
      | Inl knowledge_error \<Rightarrow>
          s\<lparr>knowledge_context := [],
            character_info := fallback_character_info (character_id s),
            conversation_history := [],
            error := Some (''Knowledge retrieval error: '' @ exn_str knowledge_error)\<rparr>)"

subsection \<open>Memory retrieval stage\<close>

text \<open>
  \<open>search_memories\<close> with limit 3, then the most important memories when the search
  finds nothing. An exception of either call is caught: the memory list is empty and the
  error is recorded.
\<close>

definition memory_retrieval :: "env \<Rightarrow> world \<Rightarrow> graph_state \<Rightarrow> graph_state \<times> world" where
  "memory_retrieval env w s =
     (case search_memories env (memory_store w) (character_id s) (user_input s) 3 of
        (found, db1) \<Rightarrow>
          (case (case found of
                   Inl e \<Rightarrow> Inl e
                 | Inr ms \<Rightarrow>
                     if ms = []
                     then get_character_memories db1 (character_id s) 3 ''importance'' None
                     else Inr ms) of
             Inl memory_error \<Rightarrow>
               (s\<lparr>error := Some (''Memory retrieval error: '' @ exn_str memory_error),
                  character_memories := []\<rparr>,
                w\<lparr>memory_store := db1\<rparr>)
           | Inr ms \<Rightarrow>
               (s\<lparr>character_memories := map memory_dict ms\<rparr>, w\<lparr>memory_store := db1\<rparr>)))"

subsection \<open>Context assembly stage\<close>

text \<open>
  What can raise inside the \<open>try\<close> block is a method call on a value of the wrong type:
  \<open>.get\<close> on a chunk's \<open>metadata\<close> that is no dictionary and \<open>.capitalize()\<close> on a
  message's \<open>role\<close> that is no string.
\<close>

definition no_knowledge_sentinel :: string where
  "no_knowledge_sentinel =
     ''NO KNOWLEDGE CHUNKS AVAILABLE. Inform the user you don't have specific information about their query in your knowledge base.''"

fun type_name :: "pyval \<Rightarrow> string" where
  "type_name PNone = ''NoneType''"
| "type_name (PBool b) = ''bool''"
| "type_name (PInt i) = ''int''"
| "type_name (PFloat r) = ''float''"
| "type_name (PStr s) = ''str''"
| "type_name (PList xs) = ''list''"
| "type_name (PDict d) = ''dict''"

definition attribute_error :: "pyval \<Rightarrow> string \<Rightarrow> exn" where
  "attribute_error v attr =
     Exn ([CHR 0x27] @ type_name v @ [CHR 0x27] @ '' object has no attribute ''
          @ [CHR 0x27] @ attr @ [CHR 0x27])"

definition metadata_of :: "pydict \<Rightarrow> exn + pydict" where
  "metadata_of chunk =
     (case map_of chunk ''metadata'' of
        None \<Rightarrow> Inr []
      | Some (PDict md) \<Rightarrow> Inr md
      | Some other \<Rightarrow> Inl (attribute_error other ''get''))"

fun render_chunks :: "env \<Rightarrow> int \<Rightarrow> pydict list \<Rightarrow> exn + string" where
  "render_chunks env i [] = Inr []"
| "render_chunks env i (chunk # chunks) =
     (case metadata_of chunk of
        Inl e \<Rightarrow> Inl e
      | Inr md \<Rightarrow>
          (case render_chunks env (i + 1) chunks of
             Inl e \<Rightarrow> Inl e
           | Inr rest \<Rightarrow>
               Inr (''CHUNK '' @ str_of env (PInt (i + 1)) @ '': ''
                    @ str_of env (py_get chunk ''content'' (PStr ''No content available''))
                    @ ''\<newline>Source: '' @ str_of env (py_get md ''source'' (PStr ''Unknown source''))
                    @ ''\<newline>Relevance Score: ''
                    @ str_of env (py_get md ''similarity_score'' (PStr ''N/A''))
                    @ ''\<newline>\<newline>'' @ rest)))"

definition knowledge_text :: "env \<Rightarrow> pydict list \<Rightarrow> exn + string" where
  "knowledge_text env chunks =
     (if chunks \<noteq> [] then
        (case render_chunks env 0 chunks of
           Inl e \<Rightarrow> Inl e
         | Inr body \<Rightarrow>
             Inr (''RELEVANT KNOWLEDGE CHUNKS (USE ONLY THIS INFORMATION):\<newline>\<newline>'' @ body))
      else Inr no_knowledge_sentinel)"

definition memories_text :: "env \<Rightarrow> pydict list \<Rightarrow> string" where
  "memories_text env mems =
     (if mems \<noteq> [] then
        ''Character memories:\<newline>''
        @ concat (map (\<lambda>memory. ''- '' @ str_of env (py_get memory ''content'' (PStr ''No memory content''))
                                 @ ''\<newline>'') mems)
      else [])"

definition character_text :: "env \<Rightarrow> pydict \<Rightarrow> string" where
  "character_text env info =
     ''Character: '' @ str_of env (py_get info ''name'' (PStr ''Character'')) @ ''\<newline>''
     @ ''Description: '' @ str_of env (py_get info ''description'' (PStr ''No description''))
     @ ''\<newline>''
     @ ''Personality: ''
     @ str_of env (py_get info ''personality'' (PStr ''No personality defined'')) @ ''\<newline>''"

fun render_history :: "env \<Rightarrow> pydict list \<Rightarrow> exn + string" where
  "render_history env [] = Inr []"
| "render_history env (msg # msgs) =
     (case py_get msg ''role'' (PStr ''unknown'') of
        PStr role \<Rightarrow>
          (case render_history env msgs of
             Inl e \<Rightarrow> Inl e
           | Inr rest \<Rightarrow>
               Inr (py_capitalize env role @ '': '' @ str_of env (py_get msg ''content'' (PStr []))
                    @ ''\<newline>'' @ rest))
      | other \<Rightarrow> Inl (attribute_error other ''capitalize''))"

definition history_text :: "env \<Rightarrow> pydict list \<Rightarrow> exn + string" where
  "history_text env history =
     (if history \<noteq> [] then
        (case render_history env history of
           Inl e \<Rightarrow> Inl e
         | Inr body \<Rightarrow> Inr (''Previous conversation:\<newline>'' @ body))
      else Inr [])"

text \<open>
  The first lines of the \<open>try\<close> block put the default profile into a state without one;
  this assignment stays when the block raises later.
\<close>

definition ensure_character_info :: "graph_state \<Rightarrow> graph_state" where
  "ensure_character_info s =
     (if character_info s = []
      then s\<lparr>character_info := fallback_character_info (character_id s)\<rparr>
      else s)"

definition context_assembly_try :: "env \<Rightarrow> graph_state \<Rightarrow> exn + string" where
  "context_assembly_try env s =
     (case knowledge_text env (knowledge_context s) of
        Inl e \<Rightarrow> Inl e
      | Inr kt \<Rightarrow>
          (case history_text env (conversation_history s) of
             Inl e \<Rightarrow> Inl e
           | Inr ht \<Rightarrow>
               Inr (''\<newline>CHARACTER INFORMATION:\<newline>'' @ character_text env (character_info s)
                    @ ''\<newline>\<newline>KNOWLEDGE CONTEXT:\<newline>'' @ kt
                    @ ''\<newline>\<newline>'' @ memories_text env (character_memories s)
                    @ ''\<newline>\<newline>'' @ ht
                    @ ''\<newline>\<newline>USER INPUT:\<newline>'' @ user_input s @ ''\<newline>'')))"

definition context_assembly :: "env \<Rightarrow> graph_state \<Rightarrow> graph_state" where
  "context_assembly env s =
     (let s1 = ensure_character_info s in
      case context_assembly_try env s1 of
        Inr assembled \<Rightarrow> s1\<lparr>assembled_context := assembled\<rparr>
      | Inl e \<Rightarrow>
          s1\<lparr>error := Some (''Context assembly error: '' @ exn_str e),
             assembled_context := ''Error assembling context: '' @ exn_str e\<rparr>)"

subsection \<open>Dialogue generation stage\<close>

definition apology :: string where
  "apology = ''I'm sorry, I'm having trouble responding right now.''"

definition system_prompt :: string where
  "system_prompt =
     ''You are a character in a dialogue system. You MUST ONLY use the knowledge provided in the user's message to answer questions. DO NOT use your pre-trained knowledge. If the knowledge doesn't contain information to answer the question, say you don't have that information.''"

definition instructions :: string where
  "instructions =
     ''EXTREMELY IMPORTANT INSTRUCTIONS:\<newline>''
     @ ''1. You MUST ONLY use the knowledge provided below to answer the user's question.\<newline>''
     @ ''2. If the knowledge doesn't contain information to answer the question, say ''
     @ [CHR 0x22] @ ''I don't have specific information about that in my knowledge base.''
     @ [CHR 0x22] @ ''\<newline>''
     @ ''3. DO NOT use your pre-trained knowledge to answer questions about the character or their universe.\<newline>''
     @ ''4. ONLY respond based on the knowledge context provided.\<newline>''
     @ ''5. DO NOT MAKE UP ANY INFORMATION that is not explicitly provided in the knowledge context.\<newline>''
     @ ''6. If you're unsure about something, say you don't have that information rather than guessing.\<newline>''"

text \<open>The default prompt template with its six variables filled in.\<close>

definition formatted_prompt :: "env \<Rightarrow> graph_state \<Rightarrow> string" where
  "formatted_prompt env s =
     (let character_name = str_of env (py_get (character_info s) ''name'' (PStr ''Character'')) in
      ''You are '' @ character_name @ '', ''
      @ str_of env (py_get (character_info s) ''description'' (PStr ''A fictional character''))
      @ ''.\<newline>Respond in character with the personality: ''
      @ str_of env (py_get (character_info s) ''personality'' (PStr ''Friendly and helpful''))
      @ ''.\<newline>\<newline>'' @ instructions
      @ ''\<newline>KNOWLEDGE CONTEXT:\<newline>'' @ assembled_context s
      @ ''\<newline>\<newline>'' @ str_of env (PList (map PDict (conversation_history s)))
      @ ''\<newline>User: '' @ user_input s
      @ ''\<newline>'' @ character_name @ '':'')"

definition dialogue_generation :: "env \<Rightarrow> graph_state \<Rightarrow> graph_state" where
  "dialogue_generation env s =
     (let s1 = ensure_character_info s in
      case llm env system_prompt (formatted_prompt env s1) of
        Inr ai_response \<Rightarrow> s1\<lparr>response := ai_response\<rparr>
      | Inl e \<Rightarrow>
          s1\<lparr>error := Some (''Dialogue generation error: '' @ exn_str e),
             response := apology\<rparr>)"

subsection \<open>Memory integration stage\<close>

definition memory_content :: "graph_state \<Rightarrow> string" where
  "memory_content s =
     ''User asked: '' @ [CHR 0x27] @ user_input s @ [CHR 0x27] @ ''. I responded: ''
     @ [CHR 0x27] @ response s @ [CHR 0x27]"

definition memory_integration :: "env \<Rightarrow> world \<Rightarrow> graph_state \<Rightarrow> graph_state \<times> world" where
  "memory_integration env w s =
     (if truthy (error s) then (s\<lparr>completed := True, updated_memory := []\<rparr>, w)
      else if response s = [] then
        (s\<lparr>error := Some ''No response to store in memory'', completed := True,
           updated_memory := []\<rparr>, w)
      else
        (case create_memory env (memory_store w) (character_id s) (memory_content s)
                ''conversation'' 5
                (Some [(''conversation_id'',
                          (case conversation_id s of None \<Rightarrow> PNone | Some c \<Rightarrow> PStr c)),
                       (''timestamp'', PStr (isoformat env (utcnow env)))]) of
           (Inl memory_error, db1) \<Rightarrow>
             (s\<lparr>error := Some (''Memory integration error: '' @ exn_str memory_error),
                updated_memory := [], completed := True\<rparr>,
              w\<lparr>memory_store := db1\<rparr>)
         | (Inr memory_id, db1) \<Rightarrow>
             (case get_memory env db1 memory_id of
                (new_memory, db2) \<Rightarrow>
                  (s\<lparr>updated_memory :=
                       (case new_memory of None \<Rightarrow> [] | Some m \<Rightarrow> memory_dict m),
                     completed := True\<rparr>,
                   w\<lparr>memory_store := db2\<rparr>))))"

subsection \<open>The graph and its entry point\<close>

text \<open>
  \<open>create_dialogue_graph\<close>: five nodes, one edge out of each, the last one to \<open>END\<close>
  (\<open>None\<close>); the entry point is the knowledge retrieval.
\<close>

datatype node_name =
    KNOWLEDGE_RETRIEVAL
  | MEMORY_RETRIEVAL
  | CONTEXT_ASSEMBLY
  | DIALOGUE_GENERATION
  | MEMORY_INTEGRATION

fun edge :: "node_name \<Rightarrow> node_name option" where
  "edge KNOWLEDGE_RETRIEVAL = Some MEMORY_RETRIEVAL"
| "edge MEMORY_RETRIEVAL = Some CONTEXT_ASSEMBLY"
| "edge CONTEXT_ASSEMBLY = Some DIALOGUE_GENERATION"
| "edge DIALOGUE_GENERATION = Some MEMORY_INTEGRATION"
| "edge MEMORY_INTEGRATION = None"

fun run_node :: "env \<Rightarrow> node_name \<Rightarrow> graph_state \<times> world \<Rightarrow> graph_state \<times> world" where
  "run_node env KNOWLEDGE_RETRIEVAL (s, w) = (knowledge_retrieval env w s, w)"
| "run_node env MEMORY_RETRIEVAL (s, w) = memory_retrieval env w s"
| "run_node env CONTEXT_ASSEMBLY (s, w) = (context_assembly env s, w)"
| "run_node env DIALOGUE_GENERATION (s, w) = (dialogue_generation env s, w)"
| "run_node env MEMORY_INTEGRATION (s, w) = memory_integration env w s"

text \<open>
  Running the graph from a node: the node, then the node its edge leads to. The second
  component of the result counts the nodes that were run.
\<close>

fun node_rank :: "node_name \<Rightarrow> nat" where
  "node_rank KNOWLEDGE_RETRIEVAL = 4"
| "node_rank MEMORY_RETRIEVAL = 3"
| "node_rank CONTEXT_ASSEMBLY = 2"
| "node_rank DIALOGUE_GENERATION = 1"
| "node_rank MEMORY_INTEGRATION = 0"

function run_from ::
  "env \<Rightarrow> node_name \<Rightarrow> graph_state \<times> world \<Rightarrow> (graph_state \<times> world) \<times> nat" where
  "run_from env n sw =
     (case edge n of
        None \<Rightarrow> (run_node env n sw, 1)
      | Some n' \<Rightarrow> (case run_from env n' (run_node env n sw) of (r, k) \<Rightarrow> (r, k + 1)))"
  by pat_completeness auto
termination
  by (relation "measure (\<lambda>(env, n, sw). node_rank n)") (auto elim: edge.elims)

definition ainvoke :: "env \<Rightarrow> world \<Rightarrow> graph_state \<Rightarrow> (graph_state \<times> world) \<times> nat" where
  "ainvoke env w initial_state = run_from env KNOWLEDGE_RETRIEVAL (initial_state, w)"

record response_data =
  rd_response :: string
  rd_conversation_id :: "string option"
  knowledge_used :: "pyval list"
  memories_used :: "pyval list"
  rd_updated_memory :: pydict
  rd_error :: "string option"

definition initial_state ::
  "string \<Rightarrow> string \<Rightarrow> string option \<Rightarrow> string option \<Rightarrow> pydict option \<Rightarrow> graph_state" where
  "initial_state ui cid conv pv ctx =
     \<lparr>user_input = ui, character_id = cid, conversation_id = conv, prompt_version_id = pv,
      request_context = (case ctx of Some c \<Rightarrow> c | None \<Rightarrow> []),
      knowledge_context = [], character_memories = [], character_info = [],
      conversation_history = [], assembled_context = [], response = [],
      updated_memory = [], completed = False, error = None\<rparr>"

definition used_ids :: "pydict list \<Rightarrow> pyval list" where
  "used_ids ds = map (\<lambda>d. py_get d ''id'' PNone) (filter (\<lambda>d. map_of d ''id'' \<noteq> None) ds)"

text \<open>The extraction step: what the caller gets from the final state.\<close>

definition extract_response :: "graph_state \<Rightarrow> response_data" where
  "extract_response result =
     (if truthy (error result) then
        \<lparr>rd_response = apology @ '' Error: '' @ (case error result of Some e \<Rightarrow> e | None \<Rightarrow> []),
         rd_conversation_id = conversation_id result,
         knowledge_used = [], memories_used = [], rd_updated_memory = [],
         rd_error = error result\<rparr>
      else
        \<lparr>rd_response = response result,
         rd_conversation_id = conversation_id result,
         knowledge_used = used_ids (knowledge_context result),
         memories_used = used_ids (character_memories result),
         rd_updated_memory = updated_memory result,
         rd_error = error result\<rparr>)"

definition generate_dialogue_response ::
  "env \<Rightarrow> world \<Rightarrow> string \<Rightarrow> string \<Rightarrow> string option \<Rightarrow> string option \<Rightarrow> pydict option
     \<Rightarrow> response_data \<times> world" where
  "generate_dialogue_response env w ui cid conv pv ctx =
     (case ainvoke env w (initial_state ui cid conv pv ctx) of
        ((result, w'), k) \<Rightarrow> (extract_response result, w'))"

section \<open>Properties of the stores\<close>

text \<open>
  The similarity score that a returned memory carries:
  \<open>memory["metadata"].get("similarity_score", 0)\<close>.
\<close>

definition memory_score :: "memory \<Rightarrow> pyval" where
  "memory_score m =
     (case map_of (case mem_metadata (snd m) of Some md \<Rightarrow> md | None \<Rightarrow> []) ''similarity_score'' of
        None \<Rightarrow> PInt 0
      | Some v \<Rightarrow> v)"


definition memory_ids :: "memory_db \<Rightarrow> string list" where
  "memory_ids db = map (\<lambda>d. str_id (fst d)) (docs (memories db))"




text \<open>The store answers: neither collection raises.\<close>

definition responding :: "memory_db \<Rightarrow> bool" where
  "responding db = (fault (memories db) = None \<and> fault (embeddings db) = None)"

section \<open>Example inputs\<close>

text \<open>
  A store that compares the fields of a chunk's metadata with the values of the filter.
\<close>

definition metadata_filter :: "pydict \<Rightarrow> chunk_doc \<Rightarrow> bool" where
  "metadata_filter fq d =
     list_all (\<lambda>(k, v). startswith k ''metadata.''
                 \<and> map_of (metadata (snd d)) (drop (length ''metadata.'') k) = Some v) fq"

text \<open>
  An environment in which the embedding model answers \<open>[1.0, 0.0]\<close> to every text, the
  store has no native vector index, no text matches a regular expression and the
  generation provider is down.
\<close>

definition example_env :: env where
  "example_env =
     \<lparr>encode = (\<lambda>t. Some [Fin 1, Fin 0]),
      satisfies = metadata_filter,
      utcnow = 7,
      new_object_id = ''65f0c0ffee65f0c0ffee0001'',
      vector_search = (\<lambda>v c l. Inl (Exn ''no vector index'')),
      regex = (\<lambda>p. Inr (\<lambda>s. False)),
      llm = (\<lambda>sp p. Inl (Exn ''provider down'')),
      str_of = (\<lambda>v. case v of PStr s \<Rightarrow> s | _ \<Rightarrow> ''?''),
      isoformat = (\<lambda>t. ''1970-01-01T00:00:07''),
      list_sort = (\<lambda>keys. Inr [0..<length keys]),
      unicode_title = (\<lambda>s. s),
      unicode_capitalize = (\<lambda>s. s)\<rparr>"

text \<open>
  A knowledge collection of 101 chunks: the first hundred without an embedding, the last
  one with the embedding of the query itself.
\<close>

definition example_chunk :: "nat \<Rightarrow> chunk_doc" where
  "example_chunk n =
     (StrId (replicate n (CHR ''c'')),
      \<lparr>chunk_id = ''u'', source = ''wiki'', content = ''text'',
       vector_embedding = (if n < 100 then None else Some [Fin 1, Fin 0]), metadata = []\<rparr>)"

definition example_collection :: "chunk_doc collection" where
  "example_collection = \<lparr>docs = map example_chunk [0..<101], fault = None\<rparr>"

definition example_query :: knowledge_query where
  "example_query = \<lparr>query = ''What powers does the character have?'', top_k = 5,
     filter_metadata = None\<rparr>"

text \<open>
  Three chunks about the character Thor whose similarities to the query \<open>[1.0, 0.0]\<close> are
  0, 1 and -1.
\<close>

definition scored_chunk :: "string \<Rightarrow> vector \<Rightarrow> chunk_doc" where
  "scored_chunk i v =
     (StrId i, \<lparr>chunk_id = ''u'', source = ''wiki'', content = ''text'',
                vector_embedding = Some v, metadata = [(''character'', PStr ''Thor'')]\<rparr>)"

definition three_chunks :: "chunk_doc collection" where
  "three_chunks =
     \<lparr>docs = [scored_chunk ''k1'' [Fin 0, Fin 1], scored_chunk ''k2'' [Fin 1, Fin 0],
              scored_chunk ''k3'' [Fin (- 1), Fin 0]],
      fault = None\<rparr>"


text \<open>
  A memory store with one memory, stored under a string \<open>_id\<close>, and its embedding record;
  the same store with the embeddings collection unreachable; a store that is down.
\<close>

definition example_memory :: mem_fields where
  "example_memory =
     \<lparr>mem_character_id = ''character_thor'', mem_content = ''I met Loki'',
      mem_source = ''wiki'', importance = 8, mem_metadata = Some [],
      created_at = 1, last_accessed = 1, access_count = 0, mem_vector_embedding = None,
      mem_extra = []\<rparr>"

definition example_store :: memory_db where
  "example_store =
     \<lparr>memories = \<lparr>docs = [(StrId ''m1'', example_memory)], fault = None\<rparr>,
      embeddings = \<lparr>docs = [\<lparr>emb_memory_id = ''m1'', emb_character_id = ''character_thor'',
                              embedding = Some [Fin 0, Fin 1], emb_created_at = 1\<rparr>],
                    fault = None\<rparr>\<rparr>"


definition store_down :: memory_db where
  "store_down =
     \<lparr>memories = \<lparr>docs = [(StrId ''m1'', example_memory)], fault = Some (Exn ''store down'')\<rparr>,
      embeddings = \<lparr>docs = [], fault = Some (Exn ''store down'')\<rparr>\<rparr>"





definition empty_store :: memory_db where
  "empty_store = \<lparr>memories = \<lparr>docs = [], fault = None\<rparr>, embeddings = \<lparr>docs = [], fault = None\<rparr>\<rparr>"


text \<open>A database without characters and conversations, and the same with the memory store down.\<close>

definition example_world :: world where
  "example_world =
     \<lparr>knowledge_chunks = three_chunks, memory_store = example_store,
      characters = \<lparr>docs = [], fault = None\<rparr>, conversations = \<lparr>docs = [], fault = None\<rparr>\<rparr>"

definition down_world :: world where
  "down_world = example_world\<lparr>memory_store := store_down\<rparr>"

section \<open>Notions of the specification\<close>

text \<open>\<open>contains s sub\<close>: the string \<open>sub\<close> occurs in \<open>s\<close> (Python's \<open>sub in s\<close>).\<close>

fun contains :: "string \<Rightarrow> string \<Rightarrow> bool" where
  "contains [] sub = (sub = [])"
| "contains (c # cs) sub = (startswith (c # cs) sub \<or> contains cs sub)"

text \<open>
  The derivation of the display name in the words of the specification: strip the prefix
  \<open>character_\<close>, replace the underscores by spaces, title-case.
\<close>

definition strip_prefix_name :: "env \<Rightarrow> string \<Rightarrow> string" where
  "strip_prefix_name env cid =
     py_title env (py_replace (drop (length ''character_'') cid) ''_'' '' '')"

text \<open>Every message of a history has a string as its role (or no role at all).\<close>

definition roles_are_strings :: "pydict list \<Rightarrow> bool" where
  "roles_are_strings history =
     list_all (\<lambda>msg. case py_get msg ''role'' (PStr ''unknown'') of PStr r \<Rightarrow> True | _ \<Rightarrow> False)
       history"

text \<open>The state and the database that reach the dialogue generation stage.\<close>

definition before_generation :: "env \<Rightarrow> world \<Rightarrow> graph_state \<Rightarrow> graph_state \<times> world" where
  "before_generation env w s0 =
     (case memory_retrieval env w (knowledge_retrieval env w s0) of
        (s2, w2) \<Rightarrow> (context_assembly env s2, w2))"

text \<open>An environment whose generation provider answers with the empty text.\<close>

definition silent_env :: env where
  "silent_env = example_env\<lparr>llm := (\<lambda>sp p. Inr [])\<rparr>"

text \<open>A state with an empty knowledge list and a message whose role is \<open>None\<close>.\<close>

definition untyped_role_state :: graph_state where
  "untyped_role_state =
     (initial_state ''hello'' ''character_thor'' (Some ''conv1'') None None)
       \<lparr>conversation_history := [[(''role'', PNone), (''content'', PStr ''hi'')]]\<rparr>"

text \<open>
  A database without knowledge whose conversation \<open>conv1\<close> holds a message with the role
  \<open>None\<close>.
\<close>

definition untyped_role_world :: world where
  "untyped_role_world =
     \<lparr>knowledge_chunks = \<lparr>docs = [], fault = None\<rparr>, memory_store = empty_store,
      characters = \<lparr>docs = [], fault = None\<rparr>,
      conversations =
        \<lparr>docs = [(StrId ''conv1'', Some [[(''role'', PNone), (''content'', PStr ''hi'')]])],
         fault = None\<rparr>\<rparr>"

text \<open>
  Two numbers that binary64 represents exactly: the square of the first one overflows, the
  square of the second one underflows to zero.
\<close>

definition huge :: f64 where
  "huge = Fin (2 ^ 600)"

definition tiny :: f64 where
  "tiny = Fin (1 / 2 ^ 600)"



section \<open>Theorems\<close>

subsection \<open>Floating-point arithmetic\<close>

lemma rne_err: "\<bar>of_int (rne x) - x\<bar> \<le> 1 / 2"
  unfolding rne_def Let_def by (auto simp: abs_if) linarith+

lemma rne_of_int [simp]: "rne (of_int n) = n"
  by (simp add: rne_def)

lemma rne_floor: "\<lfloor>x\<rfloor> \<le> rne x \<and> rne x \<le> \<lfloor>x\<rfloor> + 1"
  by (simp add: rne_def Let_def)

lemma rne_ge: "of_int n \<le> x \<Longrightarrow> n \<le> rne x"
proof -
  assume "of_int n \<le> x"
  then have "n \<le> \<lfloor>x\<rfloor>" by (simp add: le_floor_iff)
  with rne_floor [of x] show ?thesis by linarith
qed

lemma rne_le: "x \<le> of_int n \<Longrightarrow> rne x \<le> n"
proof (cases "x = of_int n")
  case True
  then show ?thesis by simp
next
  case False
  assume "x \<le> of_int n"
  with False have "x < of_int n" by simp
  then have "\<lfloor>x\<rfloor> < n" by (simp add: floor_less_iff)
  with rne_floor [of x] show ?thesis by simp
qed

lemma rne_abs_le: "\<bar>x\<bar> \<le> of_int n \<Longrightarrow> \<bar>rne x\<bar> \<le> n"
  using rne_le [of x n] rne_ge [of "- n" x] by (simp add: abs_le_iff)

lemma pow2_pos [simp]: "0 < pow2 e"
  by (simp add: pow2_def)

lemma pow2_nonneg [simp]: "0 \<le> pow2 e"
  by (simp add: pow2_def)

lemma pow2_add: "pow2 (a + b) = pow2 a * pow2 b"
  by (simp add: pow2_def powr_add)

lemma pow2_nat: "pow2 (int n) = 2 ^ n"
  by (simp add: pow2_def powr_realpow)

lemma pow2_neg_nat: "pow2 (- int n) = 1 / 2 ^ n"
  by (simp add: pow2_def powr_minus powr_realpow divide_inverse)

lemma pow2_mono: "a \<le> b \<Longrightarrow> pow2 a \<le> pow2 b"
  by (simp add: pow2_def)

lemma pow2_floor_log:
  assumes "x \<noteq> 0"
  shows "pow2 \<lfloor>log 2 \<bar>x\<bar>\<rfloor> \<le> \<bar>x\<bar>" and "\<bar>x\<bar> < pow2 (\<lfloor>log 2 \<bar>x\<bar>\<rfloor> + 1)"
proof -
  from assms have pos: "0 < \<bar>x\<bar>" by simp
  have two: "(1::real) < 2" by simp
  have "of_int \<lfloor>log 2 \<bar>x\<bar>\<rfloor> \<le> log 2 \<bar>x\<bar>" by simp
  then show "pow2 \<lfloor>log 2 \<bar>x\<bar>\<rfloor> \<le> \<bar>x\<bar>"
    unfolding pow2_def by (rule le_log_iff [OF two pos, THEN iffD1])
  have "log 2 \<bar>x\<bar> < of_int (\<lfloor>log 2 \<bar>x\<bar>\<rfloor> + 1)" by linarith
  then show "\<bar>x\<bar> < pow2 (\<lfloor>log 2 \<bar>x\<bar>\<rfloor> + 1)"
    unfolding pow2_def by (rule log_less_iff [OF two pos, THEN iffD1])
qed

lemma floor_log_bounds:
  assumes "pow2 a \<le> \<bar>x\<bar>" "\<bar>x\<bar> < pow2 b"
  shows "a \<le> \<lfloor>log 2 \<bar>x\<bar>\<rfloor>" and "\<lfloor>log 2 \<bar>x\<bar>\<rfloor> < b"
proof -
  from assms(1) have pos: "0 < \<bar>x\<bar>" using pow2_pos [of a] by linarith
  from assms(1) pos have "of_int a \<le> log 2 \<bar>x\<bar>"
    by (simp add: pow2_def le_log_iff)
  then show "a \<le> \<lfloor>log 2 \<bar>x\<bar>\<rfloor>" by (simp add: le_floor_iff)
  from assms(2) pos have "log 2 \<bar>x\<bar> < of_int b"
    by (simp add: pow2_def log_less_iff)
  then show "\<lfloor>log 2 \<bar>x\<bar>\<rfloor> < b" by (simp add: floor_less_iff)
qed


lemma abs_pow2 [simp]: "\<bar>pow2 e\<bar> = pow2 e"
  by (simp add: pow2_def)

lemma pow2_nz [simp]: "pow2 e \<noteq> 0"
  by (simp add: pow2_def)

lemma pow2_52: "pow2 (e + 52) = pow2 e * 4503599627370496"
  using pow2_add [of e 52] pow2_nat [of 52] by simp

lemma pow2_53: "pow2 (e + 53) = pow2 e * 9007199254740992"
  using pow2_add [of e 53] pow2_nat [of 53] by simp

lemma pow2_1: "pow2 (e + 1) = pow2 e * 2"
  using pow2_add [of e 1] pow2_nat [of 1] by simp

lemma max_f64_eq: "max_f64 = pow2 1024 - pow2 971"
proof -
  have "pow2 1024 = 2 ^ 1024" "pow2 971 = 2 ^ 971"
    using pow2_nat [of 1024] pow2_nat [of 971] by simp_all
  then show ?thesis by (simp add: max_f64_def)
qed

lemma max_f64_bounds: "pow2 1023 \<le> max_f64" "max_f64 < pow2 1024" "0 < max_f64"
proof -
  have "pow2 1024 = pow2 1023 * 2" using pow2_1 [of 1023] by simp
  moreover have "pow2 971 \<le> pow2 1023" by (intro pow2_mono) simp
  ultimately show "pow2 1023 \<le> max_f64" by (simp add: max_f64_eq)
  show "max_f64 < pow2 1024" by (simp add: max_f64_eq)
  show "0 < max_f64" by (simp add: max_f64_def)
qed

lemma round_f64_eq:
  "x \<noteq> 0 \<Longrightarrow> ulp_exponent x = k \<Longrightarrow> round_f64 x = of_int (rne (x / pow2 k)) * pow2 k"
  by (simp add: round_f64_def)

lemma round_f64_err:
  assumes "x \<noteq> 0" and "ulp_exponent x = k"
  shows "\<bar>round_f64 x - x\<bar> \<le> pow2 k / 2"
proof -
  have "round_f64 x - x = (of_int (rne (x / pow2 k)) - x / pow2 k) * pow2 k"
    by (simp add: round_f64_eq [OF assms] algebra_simps)
  then have "\<bar>round_f64 x - x\<bar> = \<bar>of_int (rne (x / pow2 k)) - x / pow2 k\<bar> * pow2 k"
    by (simp only: abs_mult abs_pow2)
  also have "\<dots> \<le> (1 / 2) * pow2 k"
    by (rule mult_right_mono [OF rne_err]) simp
  finally show ?thesis by simp
qed

lemma round_f64_abs_le:
  assumes "x \<noteq> 0" and "ulp_exponent x = k" and "\<bar>x\<bar> \<le> of_int n * pow2 k"
  shows "\<bar>round_f64 x\<bar> \<le> of_int n * pow2 k"
proof -
  from assms(3) have "\<bar>x\<bar> / pow2 k \<le> of_int n"
    by (simp add: pos_divide_le_eq)
  then have "\<bar>x / pow2 k\<bar> \<le> of_int n" by (simp add: abs_divide)
  then have "\<bar>rne (x / pow2 k)\<bar> \<le> n" by (rule rne_abs_le)
  then have "\<bar>of_int (rne (x / pow2 k)) :: real\<bar> \<le> of_int n"
    by (metis of_int_abs of_int_le_iff)
  then have "\<bar>of_int (rne (x / pow2 k))\<bar> * pow2 k \<le> of_int n * pow2 k"
    by (rule mult_right_mono) simp
  then show ?thesis
    by (simp add: round_f64_eq [OF assms(1,2)] abs_mult)
qed

lemma round_f64_ge:
  assumes "0 < x" and "ulp_exponent x = k" and "of_int n * pow2 k \<le> x"
  shows "of_int n * pow2 k \<le> round_f64 x"
proof -
  from assms(3) have "of_int n \<le> x / pow2 k" by (simp add: pos_le_divide_eq)
  then have "n \<le> rne (x / pow2 k)" by (rule rne_ge)
  then have "(of_int n :: real) \<le> of_int (rne (x / pow2 k))" by (simp only: of_int_le_iff)
  then have "of_int n * pow2 k \<le> of_int (rne (x / pow2 k)) * pow2 k"
    by (rule mult_right_mono) simp
  with assms(1,2) show ?thesis by (simp add: round_f64_eq)
qed

lemma fl_finite: "\<bar>round_f64 x\<bar> \<le> max_f64 \<Longrightarrow> fl x = Fin (round_f64 x)"
  by (auto simp: fl_def Let_def)

lemma fl_rel_err:
  assumes lo: "pow2 (- 1022) \<le> \<bar>x\<bar>" and hi: "\<bar>x\<bar> < pow2 1023"
  shows "\<exists>y. fl x = Fin y \<and> \<bar>y - x\<bar> \<le> \<bar>x\<bar> / 2 ^ 53"
proof -
  define e where "e = \<lfloor>log 2 \<bar>x\<bar>\<rfloor>"
  have "0 < \<bar>x\<bar>" by (rule less_le_trans [OF pow2_pos lo])
  then have nz: "x \<noteq> 0" by simp
  from floor_log_bounds [OF lo hi] have e: "- 1022 \<le> e" "e < 1023" by (simp_all add: e_def)
  then have ue: "ulp_exponent x = e - 52" by (simp add: ulp_exponent_def e_def)
  from pow2_floor_log [OF nz] have b: "pow2 e \<le> \<bar>x\<bar>" "\<bar>x\<bar> < pow2 (e + 1)"
    by (simp_all add: e_def)
  have split: "pow2 e = pow2 (e - 52) * 4503599627370496"
    using pow2_52 [of "e - 52"] by simp
  have split1: "pow2 (e + 1) = pow2 (e - 52) * 9007199254740992"
    using pow2_53 [of "e - 52"] by (simp add: add.commute)
  have "\<bar>round_f64 x - x\<bar> \<le> pow2 (e - 52) / 2"
    by (rule round_f64_err [OF nz ue])
  also have "\<dots> = pow2 e / 2 ^ 53" by (simp add: split)
  also have "\<dots> \<le> \<bar>x\<bar> / 2 ^ 53" using b(1) by (simp add: divide_right_mono)
  finally have err: "\<bar>round_f64 x - x\<bar> \<le> \<bar>x\<bar> / 2 ^ 53" .
  have "\<bar>x\<bar> \<le> of_int 9007199254740992 * pow2 (e - 52)"
    using b(2) by (simp add: split1 mult.commute)
  from round_f64_abs_le [OF nz ue this]
  have "\<bar>round_f64 x\<bar> \<le> pow2 (e + 1)"
    by (simp add: split1 mult.commute)
  also have "\<dots> \<le> pow2 1023" using e(2) by (intro pow2_mono) simp
  also note max_f64_bounds(1)
  finally have "fl x = Fin (round_f64 x)" by (rule fl_finite)
  with err show ?thesis by simp
qed

lemma fl_overflow:
  assumes "pow2 1024 \<le> x"
  shows "fl x = PInf"
proof -
  define e where "e = \<lfloor>log 2 \<bar>x\<bar>\<rfloor>"
  have pos: "0 < x" by (rule less_le_trans [OF pow2_pos assms])
  then have ax: "\<bar>x\<bar> = x" and nz: "x \<noteq> 0" by simp_all
  from pow2_floor_log [OF nz] have b: "pow2 e \<le> x" "x < pow2 (e + 1)"
    by (simp_all add: e_def ax)
  have "pow2 1024 \<le> \<bar>x\<bar>" "\<bar>x\<bar> < pow2 (e + 1)" using assms b by (simp_all add: ax)
  from floor_log_bounds(1) [OF this] have e: "1024 \<le> e" by (simp add: e_def)
  then have ue: "ulp_exponent x = e - 52" by (simp add: ulp_exponent_def e_def)
  have split: "pow2 e = of_int 4503599627370496 * pow2 (e - 52)"
    using pow2_52 [of "e - 52"] by (simp add: mult.commute)
  from b(1) have "of_int 4503599627370496 * pow2 (e - 52) \<le> x" by (simp only: split)
  from round_f64_ge [OF pos ue this] have "pow2 e \<le> round_f64 x" by (simp only: split)
  moreover have "pow2 1024 \<le> pow2 e" using e by (rule pow2_mono)
  ultimately have "max_f64 < round_f64 x" using max_f64_bounds(2) by linarith
  then show ?thesis by (simp add: fl_def Let_def)
qed

lemma rne_small: "\<bar>q\<bar> < 1 / 2 \<Longrightarrow> rne q = 0"
proof (cases "0 \<le> q")
  case True
  assume "\<bar>q\<bar> < 1 / 2"
  with True have "\<lfloor>q\<rfloor> = 0" by (simp add: floor_eq_iff)
  with True \<open>\<bar>q\<bar> < 1 / 2\<close> show ?thesis by (simp add: rne_def Let_def)
next
  case False
  assume a: "\<bar>q\<bar> < 1 / 2"
  with False have "\<lfloor>q\<rfloor> = - 1" by (simp add: floor_eq_iff)
  with False a show ?thesis by (simp add: rne_def Let_def)
qed

lemma fl_underflow:
  assumes "\<bar>x\<bar> < pow2 (- 1075)"
  shows "fl x = Fin 0"
proof (cases "x = 0")
  case True
  then show ?thesis by (simp add: fl_def round_f64_def max_f64_def)
next
  case False
  define e where "e = \<lfloor>log 2 \<bar>x\<bar>\<rfloor>"
  have "pow2 e \<le> \<bar>x\<bar>" using pow2_floor_log(1) [OF False] by (simp add: e_def)
  from floor_log_bounds(2) [OF this assms] have "e < - 1075" by (simp add: e_def)
  then have ue: "ulp_exponent x = - 1074" by (simp add: ulp_exponent_def e_def)
  have "pow2 (- 1074) = pow2 (- 1075) * 2" using pow2_1 [of "- 1075"] by simp
  with assms have "\<bar>x\<bar> / pow2 (- 1074) < 1 / 2"
    by (simp add: pos_divide_less_eq)
  then have "\<bar>x / pow2 (- 1074)\<bar> < 1 / 2" by (simp add: abs_divide)
  then have "rne (x / pow2 (- 1074)) = 0" by (rule rne_small)
  then have "round_f64 x = 0" by (simp add: round_f64_eq [OF False ue])
  then show ?thesis using max_f64_bounds(3) by (simp add: fl_def)
qed

lemma fl_zero [simp]: "fl 0 = Fin 0"
  using max_f64_bounds(3) by (simp add: fl_def round_f64_def)

lemma round_f64_one: "round_f64 1 = 1"
proof -
  have ue: "ulp_exponent 1 = - 52" by (simp add: ulp_exponent_def)
  have p: "pow2 (- 52) * 4503599627370496 = 1" using pow2_52 [of "- 52"] pow2_nat [of 0] by simp
  then have "1 / pow2 (- 52) = of_int 4503599627370496"
    by (simp add: field_simps)
  then have "rne (1 / pow2 (- 52)) = 4503599627370496"
    by (simp only: rne_of_int)
  with p show ?thesis by (simp add: round_f64_eq [OF _ ue])
qed

lemma rne_minus: "rne (- y) = - rne y"
proof (cases "y = of_int \<lfloor>y\<rfloor>")
  case True
  then obtain n where "y = of_int n" ..
  then have "- y = of_int (- n)" by simp
  then show ?thesis unfolding \<open>y = of_int n\<close> by (simp only: rne_of_int)
next
  case False
  then have f: "\<lfloor>- y\<rfloor> = - \<lfloor>y\<rfloor> - 1"
    by (metis ceiling_altdef ceiling_def add_diff_cancel_right' add.commute diff_minus_eq_add minus_diff_eq uminus_add_conv_diff)
  show ?thesis
    unfolding rne_def Let_def f by (auto simp: algebra_simps)
qed

lemma round_f64_minus: "round_f64 (- x) = - round_f64 x"
  by (simp add: round_f64_def ulp_exponent_def rne_minus)

lemma fl_one [simp]: "fl 1 = Fin 1"
  using max_f64_bounds by (simp add: fl_def round_f64_one max_f64_def)

lemma fl_minus_one [simp]: "fl (- 1) = Fin (- 1)"
  by (simp add: fl_def round_f64_minus round_f64_one max_f64_def)

lemma dot_sum_zeros: "list_all (\<lambda>a. a = Fin 0) v \<Longrightarrow> dot_sum v v = Fin 0"
proof -
  have "foldl (\<lambda>acc (a, b). fadd acc (fmul a b)) (Fin 0) (zip v v) = Fin 0"
    if "list_all (\<lambda>a. a = Fin 0) v"
    using that by (induction v) simp_all
  then show "list_all (\<lambda>a. a = Fin 0) v \<Longrightarrow> dot_sum v v = Fin 0"
    by (simp add: dot_sum_def)
qed

lemma sqrt_pow2: "sqrt (pow2 (2 * k)) = pow2 k"
proof -
  have "pow2 (2 * k) = pow2 k * pow2 k" using pow2_add [of k k] by simp
  then show ?thesis by simp
qed

lemma roundoff_product:
  fixes s a b n p :: real
  assumes s: "0 < s" and a: "0 < a" and b: "0 < b"
    and n: "s * a \<le> n" "n \<le> s * b"
    and p: "n * n * a \<le> p" "p \<le> n * n * b"
  shows "0 < p" and "1 / (b * b * b) \<le> s * s / p" and "s * s / p \<le> 1 / (a * a * a)"
proof -
  have n0: "0 < n" using n(1) s a by (meson less_le_trans mult_pos_pos)
  have sa: "0 < s * a" using s a by simp
  have lo2: "(s * a) * (s * a) \<le> n * n"
    by (rule mult_mono) (use n sa in simp_all)
  have hi2: "n * n \<le> (s * b) * (s * b)"
    by (rule mult_mono) (use n n0 s b in simp_all)
  have plo: "s * s * (a * a * a) \<le> p"
  proof -
    have "(s * a) * (s * a) * a \<le> n * n * a"
      by (rule mult_right_mono [OF lo2]) (use a in simp)
    with p(1) show ?thesis by (simp add: mult_ac)
  qed
  have phi: "p \<le> s * s * (b * b * b)"
  proof -
    have "n * n * b \<le> (s * b) * (s * b) * b"
      by (rule mult_right_mono [OF hi2]) (use b in simp)
    with p(2) show ?thesis by (simp add: mult_ac)
  qed
  show p0: "0 < p"
    using plo s a by (meson less_le_trans mult_pos_pos)
  have ss: "0 < s * s" using s by simp
  have "s * s / p \<le> s * s / (s * s * (a * a * a))"
    by (rule divide_left_mono [OF plo]) (use ss p0 a in simp_all)
  then show "s * s / p \<le> 1 / (a * a * a)" using s by simp
  have "s * s / (s * s * (b * b * b)) \<le> s * s / p"
    by (rule divide_left_mono [OF phi]) (use ss p0 b in simp_all)
  then show "1 / (b * b * b) \<le> s * s / p" using s by simp
qed

lemma roundoff_quotient:
  fixes q a b r :: real
  assumes a: "0 < a" and b: "0 < b"
    and q: "1 / (b * b * b) \<le> q" "q \<le> 1 / (a * a * a)"
    and r: "q * a \<le> r" "r \<le> q * b"
  shows "a / (b * b * b) \<le> r" and "r \<le> b / (a * a * a)"
proof -
  have "1 / (b * b * b) * a \<le> q * a"
    by (rule mult_right_mono [OF q(1)]) (use a in simp)
  with r(1) show "a / (b * b * b) \<le> r" by simp
  have "q * b \<le> 1 / (a * a * a) * b"
    by (rule mult_right_mono [OF q(2)]) (use b in simp)
  with r(2) show "r \<le> b / (a * a * a)" by simp
qed

lemma rel_err_bounds_gen:
  fixes x y u :: real
  assumes "0 < x" and "\<bar>y - x\<bar> \<le> x * u"
  shows "x * (1 - u) \<le> y" and "y \<le> x * (1 + u)"
proof -
  from assms(2) have "y - x \<le> x * u" "x - y \<le> x * u" by linarith+
  then show "x * (1 - u) \<le> y" and "y \<le> x * (1 + u)"
    unfolding right_diff_distrib distrib_left by simp_all
qed

lemma rel_err_bounds:
  fixes x y :: real
  assumes "0 < x" and "\<bar>y - x\<bar> \<le> \<bar>x\<bar> / 2 ^ 53"
  shows "x * (1 - 1 / 2 ^ 53) \<le> y" and "y \<le> x * (1 + 1 / 2 ^ 53)"
proof -
  from assms have "\<bar>y - x\<bar> \<le> x * (1 / 2 ^ 53)" by simp
  from rel_err_bounds_gen [OF assms(1) this]
  show "x * (1 - 1 / 2 ^ 53) \<le> y" and "y \<le> x * (1 + 1 / 2 ^ 53)" .
qed

lemma sqrt_pow2_1000: "sqrt (pow2 (- 1000)) = pow2 (- 500)" "sqrt (pow2 1000) = pow2 500"
  using sqrt_pow2 [of "- 500"] sqrt_pow2 [of 500] by simp_all

lemma roundoff_numbers:
  "1 - 1 / (2 ^ 50 :: real) \<le> (1 - 1 / 2 ^ 53) / ((1 + 1 / 2 ^ 53) * (1 + 1 / 2 ^ 53) * (1 + 1 / 2 ^ 53))"
  "(1 + 1 / 2 ^ 53) / ((1 - 1 / 2 ^ 53) * (1 - 1 / 2 ^ 53) * (1 - 1 / 2 ^ 53)) \<le> 1 + 1 / (2 ^ 50 :: real)"
  by (simp_all add: field_simps)

lemma roundoff_crude:
  "(1::real) / 2 \<le> 1 - 1 / 2 ^ 53" "1 + 1 / 2 ^ 53 \<le> (2::real)"
  "(1::real) / 2 \<le> 1 / ((1 + 1 / 2 ^ 53) * (1 + 1 / 2 ^ 53) * (1 + 1 / 2 ^ 53))"
  "1 / ((1 - 1 / 2 ^ 53) * (1 - 1 / 2 ^ 53) * (1 - 1 / 2 ^ 53)) \<le> (2::real)"
  by (simp_all add: field_simps)

lemma cosine_self:
  assumes d: "dot_sum v v = Fin x" and lo: "1 / 2 ^ 1000 \<le> x" and hi: "x \<le> 2 ^ 1000"
  shows "\<exists>r. cosine_similarity v v = Inr (Fin r) \<and> \<bar>r - 1\<bar> \<le> 1 / 2 ^ 50"
proof -
  define a :: real where "a = 1 - 1 / 2 ^ 53"
  define b :: real where "b = 1 + 1 / 2 ^ 53"
  define s where "s = sqrt x"
  have a0: "0 < a" and b0: "0 < b" and ah: "1 / 2 \<le> a" and b2: "b \<le> 2"
    using roundoff_crude(1,2) by (simp_all add: a_def b_def)
  have x0: "0 < x" using lo by (rule less_le_trans [rotated]) simp
  then have s0: "0 < s" and ss: "s * s = x" by (simp_all add: s_def)
  have plo: "pow2 (- 1000) = 1 / 2 ^ 1000" using pow2_neg_nat [of 1000] by simp
  have phi: "pow2 1000 = 2 ^ 1000" using pow2_nat [of 1000] by simp
  have "pow2 (- 1000) \<le> x" using lo by (simp only: plo)
  then have "sqrt (pow2 (- 1000)) \<le> sqrt x" by (rule real_sqrt_le_mono)
  then have slo: "pow2 (- 500) \<le> s" by (simp only: sqrt_pow2_1000 s_def)
  have "x \<le> pow2 1000" using hi by (simp only: phi)
  then have "sqrt x \<le> sqrt (pow2 1000)" by (rule real_sqrt_le_mono)
  then have shi: "s \<le> pow2 500" by (simp only: sqrt_pow2_1000 s_def)
  have "pow2 (- 1022) \<le> \<bar>s\<bar>"
    using slo s0 pow2_mono [of "- 1022" "- 500"] by simp
  moreover have "\<bar>s\<bar> < pow2 1023"
    using shi s0 pow2_mono [of 500 1022] pow2_1 [of 1022] pow2_pos [of 1022] by simp
  ultimately obtain n where n: "fl s = Fin n" "\<bar>n - s\<bar> \<le> \<bar>s\<bar> / 2 ^ 53"
    using fl_rel_err by blast
  from rel_err_bounds [OF s0 n(2)] have nb: "s * a \<le> n" "n \<le> s * b"
    by (simp_all add: a_def b_def)
  have n0: "0 < n" using nb(1) s0 a0 by (meson less_le_trans mult_pos_pos)
  have norm: "np_norm v = Fin n"
    using x0 n(1) by (simp add: np_norm_def d s_def)
  have nlo: "pow2 (- 501) \<le> n"
  proof -
    have "pow2 (- 500) = pow2 (- 501) * 2" using pow2_1 [of "- 501"] by simp
    then have "pow2 (- 501) \<le> s * (1 / 2)" using slo by simp
    also have "\<dots> \<le> s * a" using ah s0 by (simp only: mult_le_cancel_left_pos)
    finally show ?thesis using nb(1) by simp
  qed
  have nhi: "n \<le> pow2 501"
  proof -
    have "s * b \<le> s * 2" using b2 s0 by (simp only: mult_le_cancel_left_pos)
    also have "\<dots> \<le> pow2 500 * 2" using shi by simp
    also have "\<dots> = pow2 501" using pow2_1 [of 500] by simp
    finally show ?thesis using nb(2) by simp
  qed
  have "pow2 (- 501) * pow2 (- 501) \<le> n * n"
    by (rule mult_mono) (use nlo n0 in simp_all)
  then have "pow2 (- 1022) \<le> \<bar>n * n\<bar>"
    using pow2_add [of "- 501" "- 501"] pow2_mono [of "- 1022" "- 1002"] by simp
  moreover have "\<bar>n * n\<bar> < pow2 1023"
  proof -
    have "n * n \<le> pow2 501 * pow2 501"
      by (rule mult_mono) (use nhi n0 in simp_all)
    then have "n * n \<le> pow2 1002" using pow2_add [of 501 501] by simp
    also have "\<dots> \<le> pow2 1022" by (rule pow2_mono) simp
    also have "\<dots> < pow2 1023" using pow2_1 [of 1022] pow2_pos [of 1022] by simp
    finally show ?thesis by simp
  qed
  ultimately obtain p where p: "fl (n * n) = Fin p" "\<bar>p - n * n\<bar> \<le> \<bar>n * n\<bar> / 2 ^ 53"
    using fl_rel_err by blast
  have nn0: "0 < n * n" using n0 by simp
  from rel_err_bounds [OF nn0 p(2)] have pb: "n * n * a \<le> p" "p \<le> n * n * b"
    by (simp_all add: a_def b_def)
  note q = roundoff_product [OF s0 a0 b0 nb pb]
  have q0: "0 < s * s / p" using s0 q(1) by simp
  have "pow2 (- 1022) \<le> \<bar>s * s / p\<bar>"
  proof -
    have "pow2 (- 1022) \<le> pow2 (- 1)" by (rule pow2_mono) simp
    also have "\<dots> = 1 / 2" using pow2_neg_nat [of 1] by simp
    also have "\<dots> \<le> 1 / (b * b * b)" using roundoff_crude(3) by (simp add: b_def)
    also note q(2)
    finally show ?thesis by (simp only: abs_of_pos [OF q0])
  qed
  moreover have "\<bar>s * s / p\<bar> < pow2 1023"
  proof -
    have "s * s / p \<le> 1 / (a * a * a)" by (rule q(3))
    also have "\<dots> \<le> 2" using roundoff_crude(4) by (simp add: a_def)
    also have "\<dots> = pow2 1" using pow2_nat [of 1] by simp
    also have "\<dots> \<le> pow2 1022" by (rule pow2_mono) simp
    also have "\<dots> < pow2 1023" using pow2_1 [of 1022] pow2_pos [of 1022] by simp
    finally show ?thesis by (simp only: abs_of_pos [OF q0])
  qed
  ultimately obtain r where r: "fl (s * s / p) = Fin r"
      "\<bar>r - s * s / p\<bar> \<le> \<bar>s * s / p\<bar> / 2 ^ 53"
    using fl_rel_err by blast
  from rel_err_bounds [OF q0 r(2)] have rb: "s * s / p * a \<le> r" "r \<le> s * s / p * b"
    by (simp_all add: a_def b_def)
  from roundoff_quotient [OF a0 b0 q(2,3) rb]
  have "1 - 1 / 2 ^ 50 \<le> r" "r \<le> 1 + 1 / 2 ^ 50"
    using roundoff_numbers by (simp_all add: a_def b_def)
  then have "r - 1 \<le> 1 / 2 ^ 50" "- (r - 1) \<le> 1 / 2 ^ 50" by linarith+
  then have "\<bar>r - 1\<bar> \<le> 1 / 2 ^ 50" by (rule abs_leI)
  moreover have "cosine_similarity v v = Inr (Fin r)"
    using n0 q(1) p(1) r(1) by (simp add: cosine_similarity_def np_dot_def d norm ss)
  ultimately show ?thesis by blast
qed

lemma fmul_huge [simp]: "fmul huge huge = PInf"
proof -
  have "pow2 1024 \<le> 2 ^ 600 * 2 ^ 600"
    using pow2_nat [of 1024] by simp
  then show ?thesis unfolding huge_def fmul.simps by (rule fl_overflow)
qed

lemma fmul_tiny [simp]: "fmul tiny tiny = Fin 0"
proof -
  have "\<bar>1 / 2 ^ 600 * (1 / 2 ^ 600) :: real\<bar> < pow2 (- 1075)"
    using pow2_neg_nat [of 1075] by simp
  then show ?thesis unfolding tiny_def fmul.simps by (rule fl_underflow)
qed

lemma huge_tiny_nonzero [simp]: "huge \<noteq> Fin 0" "tiny \<noteq> Fin 0"
  by (simp_all add: huge_def tiny_def)

lemmas cosine_eval = cosine_similarity_def np_dot_def np_norm_def dot_sum_def Let_def


lemma cosine_similarity_score_eq: "cosine_similarity_score v1 v2 = cosine_similarity v1 v2"
  by (simp add: cosine_similarity_score_def cosine_similarity_def)

lemma np_norm_zeros: "list_all (\<lambda>a. a = Fin 0) v \<Longrightarrow> np_norm v = Fin 0"
  by (simp add: np_norm_def dot_sum_zeros)

text \<open>
  C8, as amended. For two vectors of equal length, both cosine functions return a value
  and raise nothing; the value is 0.0 whenever one of the computed norms is zero, which is
  the case for a vector of zeros. For a vector whose squared norm, as \<open>np.dot\<close> computes
  it, lies between \<open>2^-1000\<close> and \<open>2^1000\<close>, the similarity of the vector with itself is a
  finite number within \<open>2^-50\<close> of 1.
\<close>

theorem cosine_similarity_guarded:
  assumes "length v1 = length v2"
  shows "(\<exists>r. cosine_similarity v1 v2 = Inr r \<and> cosine_similarity_score v1 v2 = Inr r)
       \<and> (np_norm v1 = Fin 0 \<or> np_norm v2 = Fin 0 \<longrightarrow>
            cosine_similarity v1 v2 = Inr (Fin 0) \<and> cosine_similarity_score v1 v2 = Inr (Fin 0))
       \<and> (list_all (\<lambda>a. a = Fin 0) v \<longrightarrow> np_norm v = Fin 0)
       \<and> (dot_sum v1 v1 = Fin x \<and> 1 / 2 ^ 1000 \<le> x \<and> x \<le> 2 ^ 1000 \<longrightarrow>
            (\<exists>r. cosine_similarity v1 v1 = Inr (Fin r)
                \<and> cosine_similarity_score v1 v1 = Inr (Fin r)
                \<and> \<bar>r - 1\<bar> \<le> 1 / 2 ^ 50))"
proof -
  have ex: "\<exists>r. cosine_similarity v1 v2 = Inr r \<and> cosine_similarity_score v1 v2 = Inr r"
    using assms by (simp add: cosine_similarity_score_eq cosine_similarity_def np_dot_def Let_def)
  have zero: "cosine_similarity v1 v2 = Inr (Fin 0) \<and> cosine_similarity_score v1 v2 = Inr (Fin 0)"
    if "np_norm v1 = Fin 0 \<or> np_norm v2 = Fin 0"
    using assms that
    by (auto simp: cosine_similarity_score_eq cosine_similarity_def np_dot_def Let_def)
  have zeros: "np_norm v = Fin 0" if "list_all (\<lambda>a. a = Fin 0) v"
    using that by (rule np_norm_zeros)
  have self: "\<exists>r. cosine_similarity v1 v1 = Inr (Fin r)
                \<and> cosine_similarity_score v1 v1 = Inr (Fin r)
                \<and> \<bar>r - 1\<bar> \<le> 1 / 2 ^ 50"
    if "dot_sum v1 v1 = Fin x \<and> 1 / 2 ^ 1000 \<le> x \<and> x \<le> 2 ^ 1000"
    using cosine_self [of v1 x] that by (simp add: cosine_similarity_score_eq)
  from ex zero zeros self show ?thesis by blast
qed

theorem cosine_similarity_guarded_witness:
  "cosine_similarity [Fin 1, Fin 0] [Fin 0, Fin 0] = Inr (Fin 0)
   \<and> cosine_similarity_score [Fin 1, Fin 0] [Fin 0, Fin 0] = Inr (Fin 0)
   \<and> np_norm [Fin 0, Fin 0] = Fin 0
   \<and> dot_sum [Fin 1, Fin 0] [Fin 1, Fin 0] = Fin 1
   \<and> (\<exists>r. cosine_similarity [Fin 1, Fin 0] [Fin 1, Fin 0] = Inr (Fin r) \<and> \<bar>r - 1\<bar> \<le> 1 / 2 ^ 50)"
proof -
  have d: "dot_sum [Fin 1, Fin 0] [Fin 1, Fin 0] = Fin 1"
    by (simp add: dot_sum_def)
  have r: "(1::real) / 2 ^ 1000 \<le> 1" "(1::real) \<le> 2 ^ 1000"
    by simp_all
  have z: "np_norm [Fin 0, Fin 0] = Fin 0"
    by (simp add: np_norm_zeros)
  from cosine_similarity_guarded [of "[Fin 1, Fin 0]" "[Fin 0, Fin 0]" "[Fin 0, Fin 0]" 1] d r z
  show ?thesis by auto
qed

text \<open>
  C8 as stated fails outside that range. The vector \<open>[2^600]\<close> has a nonzero norm, but its
  squared norm overflows: the norm is computed as infinity and the similarity of the
  vector with itself is NaN. The vector \<open>[2^-600]\<close> has a nonzero norm, but its squared
  norm underflows: the norm is computed as zero and the similarity is 0.0.
\<close>

theorem cosine_self_similarity_counterexample:
  "np_norm [huge] = PInf
   \<and> cosine_similarity [huge] [huge] = Inr NaN
   \<and> cosine_similarity_score [huge] [huge] = Inr NaN
   \<and> tiny \<noteq> Fin 0
   \<and> np_norm [tiny] = Fin 0
   \<and> cosine_similarity [tiny] [tiny] = Inr (Fin 0)
   \<and> cosine_similarity_score [tiny] [tiny] = Inr (Fin 0)"
  by (simp add: cosine_similarity_score_eq cosine_eval)


subsection \<open>Lists, slices and sorting\<close>

lemma set_py_take: "set (py_take k xs) \<subseteq> set xs"
  by (auto simp: py_take_def dest: in_set_takeD)

lemma length_py_take: "0 \<le> k \<Longrightarrow> length (py_take k xs) = min (nat k) (length xs)"
  by (simp add: py_take_def)

lemma length_py_take_le: "length (py_take k xs) \<le> length xs"
  by (simp add: py_take_def)

lemma set_sort_reverse [simp]: "set (sort_reverse f xs) = set xs"
  by (simp add: sort_reverse_def)

lemma length_sort_reverse [simp]: "length (sort_reverse f xs) = length xs"
  by (simp add: sort_reverse_def)




lemma apply_order_perm:
  "set (apply_order order xs) = set xs \<and> length (apply_order order xs) = length xs"
proof (cases "sort order = [0..<length xs]")
  case True
  have "set order = set (sort order)" by simp
  also have "\<dots> = {0..<length xs}" by (simp only: True set_upt)
  finally have s: "set order = {0..<length xs}" .
  have "length order = length (sort order)" by simp
  also have "\<dots> = length xs" by (simp add: True)
  finally have l: "length order = length xs" .
  have "set (map ((!) xs) order) = (!) xs ` {0..<length xs}"
    by (simp add: s)
  also have "\<dots> = set xs"
    by (auto simp: set_conv_nth)
  finally show ?thesis using True l by (simp add: apply_order_def)
next
  case False
  then show ?thesis by (simp add: apply_order_def)
qed

lemma py_sort_reverse_perm:
  assumes "py_sort_reverse env f xs = Inr ys"
  shows "set ys = set xs \<and> length ys = length xs"
  using assms apply_order_perm [of _ xs]
  by (auto simp: py_sort_reverse_def Let_def split: if_splits sum.splits)


lemma score_chunk_id: "score_chunk qe c = Inr c' \<Longrightarrow> chunk_id c' = chunk_id c"
  by (auto simp: score_chunk_def split: option.splits if_splits sum.splits)

lemma score_chunks_ids: "score_chunks qe cs = Inr cs' \<Longrightarrow> map chunk_id cs' = map chunk_id cs"
  by (induction cs arbitrary: cs') (auto split: sum.splits dest: score_chunk_id)

lemma sort_chunks_set:
  "sort_chunks env cs = Inr cs' \<Longrightarrow> set cs' = set cs \<and> length cs' = length cs"
  unfolding sort_chunks_def by (rule py_sort_reverse_perm)


lemma scored_chunks_unfold:
  assumes "scored_chunks env coll q qe = Inr scored"
  shows "fault coll = None
       \<and> score_chunks qe (map to_chunk
             (take 100 (filter (satisfies env (filter_query q)) (docs coll)))) = Inr scored"
  using assms
  by (auto simp: scored_chunks_def to_list_def find_coll_def split: sum.splits option.splits)

lemma scored_chunks_length:
  assumes "scored_chunks env coll q qe = Inr scored"
  shows "length scored = min 100 (length (filter (satisfies env (filter_query q)) (docs coll)))"
proof -
  from scored_chunks_unfold [OF assms] score_chunks_ids
  have "map chunk_id scored = map chunk_id (map to_chunk
             (take 100 (filter (satisfies env (filter_query q)) (docs coll))))"
    by blast
  then have "length scored = length (take 100 (filter (satisfies env (filter_query q)) (docs coll)))"
    by (metis length_map)
  then show ?thesis by (simp add: min.commute)
qed

lemma retrieve_similar_try_unfold:
  assumes "retrieve_similar_try env coll q qe = Inr chunks"
  obtains scored sorted_chunks where
    "scored_chunks env coll q qe = Inr scored"
    "sort_chunks env scored = Inr sorted_chunks"
    "chunks = py_take (top_k q) sorted_chunks"
  using assms
  by (auto simp: retrieve_similar_try_def split: sum.splits)

lemma retrieve_similar_cases:
  assumes "retrieve_similar env coll q = Inr chunks"
  shows "chunks = [] \<or>
         retrieve_similar_try env coll q (get_embedding (encode env) (query q)) = Inr chunks"
  using assms by (auto simp: retrieve_similar_def Let_def split: sum.splits)

lemma retrieve_similar_try_ids:
  assumes "retrieve_similar_try env coll q qe = Inr chunks"
  shows "chunk_id ` set chunks \<subseteq>
         (\<lambda>d. str_id (fst d)) ` set (take 100 (filter (satisfies env (filter_query q)) (docs coll)))"
proof -
  from assms obtain scored sorted_chunks where
    sc: "scored_chunks env coll q qe = Inr scored"
    and so: "sort_chunks env scored = Inr sorted_chunks"
    and ch: "chunks = py_take (top_k q) sorted_chunks"
    by (rule retrieve_similar_try_unfold)
  let ?results = "take 100 (filter (satisfies env (filter_query q)) (docs coll))"
  have "set chunks \<subseteq> set scored"
    using ch so set_py_take [of "top_k q" sorted_chunks] by (auto dest: sort_chunks_set)
  then have "chunk_id ` set chunks \<subseteq> set (map chunk_id scored)" by auto
  also have "map chunk_id scored = map chunk_id (map to_chunk ?results)"
    using scored_chunks_unfold [OF sc] by (auto dest: score_chunks_ids)
  also have "set \<dots> = (\<lambda>d. str_id (fst d)) ` set ?results"
    by (auto simp: to_chunk_def)
  finally show ?thesis .
qed

lemma retrieve_similar_try_length:
  assumes "retrieve_similar_try env coll q qe = Inr chunks"
  shows "length chunks \<le> 100"
    and "0 \<le> top_k q \<Longrightarrow> length chunks =
           min (nat (top_k q))
             (min 100 (length (filter (satisfies env (filter_query q)) (docs coll))))"
proof -
  from assms obtain scored sorted_chunks where
    sc: "scored_chunks env coll q qe = Inr scored"
    and so: "sort_chunks env scored = Inr sorted_chunks"
    and ch: "chunks = py_take (top_k q) sorted_chunks"
    by (rule retrieve_similar_try_unfold)
  have len: "length sorted_chunks
      = min 100 (length (filter (satisfies env (filter_query q)) (docs coll)))"
    using so scored_chunks_length [OF sc] by (auto dest: sort_chunks_set)
  show "length chunks \<le> 100"
    using length_py_take_le [of "top_k q" sorted_chunks] len ch by simp
  show "length chunks = min (nat (top_k q))
      (min 100 (length (filter (satisfies env (filter_query q)) (docs coll))))"
    if "0 \<le> top_k q"
    using that len ch by (simp add: length_py_take)
qed




subsection \<open>The memory store\<close>







lemma create_memory_result:
  assumes "responding db"
  shows "create_memory env db cid text src imp md =
     (Inr (new_object_id env),
      db\<lparr>memories := (memories db)\<lparr>docs := docs (memories db) @
           [(ObjectId (new_object_id env),
             \<lparr>mem_character_id = cid, mem_content = text, mem_source = src, importance = imp,
              mem_metadata = Some (case md of Some m \<Rightarrow> m | None \<Rightarrow> []),
              created_at = utcnow env, last_accessed = utcnow env, access_count = 0,
              mem_vector_embedding = None, mem_extra = []\<rparr>)]\<rparr>,
         embeddings := (embeddings db)\<lparr>docs := docs (embeddings db) @
           [\<lparr>emb_memory_id = new_object_id env, emb_character_id = cid,
             embedding = Some (create_embedding env text), emb_created_at = utcnow env\<rparr>]\<rparr>\<rparr>)"
  using assms by (simp add: create_memory_def responding_def insert_one_def Let_def)


lemma fst_set_fields [simp]: "fst (set_fields u d) = fst d"
  by (simp add: set_fields_def)








lemma delete_first_none: "filter p xs = [] \<Longrightarrow> delete_first p xs = xs"
  by (induction xs) (auto split: if_splits)




lemma update_first_none: "filter p xs = [] \<Longrightarrow> update_first p f xs = xs"
  by (induction xs) (auto split: if_splits)





text \<open>
  A memory that \<open>create_memory\<close> has written is stored under an \<open>ObjectId\<close>, which the
  string filter of \<open>update_memory\<close> and \<open>delete_memory\<close> never equals: both report \<open>False\<close>
  for the id that \<open>create_memory\<close> returned and leave the store as it is, while
  \<open>find_memory\<close>, which parses the id, finds the memory.
\<close>

lemma created_memory_out_of_reach:
  assumes resp: "responding db" and fresh: "new_object_id env \<notin> set (memory_ids db)"
    and res: "create_memory env db cid text src imp md = (r, db1)"
  shows "r = Inr (new_object_id env)
       \<and> update_memory env db1 (new_object_id env) updates = (Inr False, db1)
       \<and> delete_memory db1 (new_object_id env) = (Inr False, db1)
       \<and> new_object_id env \<in> set (memory_ids db1)"
proof -
  let ?p = "\<lambda>d. fst d = StrId (new_object_id env)"
  from res have r: "r = Inr (new_object_id env)"
    and ms: "docs (memories db1) = docs (memories db) @
           [(ObjectId (new_object_id env),
             \<lparr>mem_character_id = cid, mem_content = text, mem_source = src, importance = imp,
              mem_metadata = Some (case md of Some m \<Rightarrow> m | None \<Rightarrow> []),
              created_at = utcnow env, last_accessed = utcnow env, access_count = 0,
              mem_vector_embedding = None, mem_extra = []\<rparr>)]"
    and fs: "fault (memories db1) = None" "fault (embeddings db1) = None"
    using resp unfolding create_memory_result [OF resp] by (auto simp: responding_def)
  have "\<forall>d \<in> set (docs (memories db)). fst d \<noteq> StrId (new_object_id env)"
    using fresh by (force simp: memory_ids_def)
  then have none: "filter ?p (docs (memories db1)) = []"
    by (auto simp: ms filter_empty_conv)
  then have same: "update_first ?p f (docs (memories db1)) = docs (memories db1)" for f
    by (rule update_first_none)
  have u: "update_memory env db1 (new_object_id env) updates = (Inr False, db1)"
    using fs none same
    by (simp add: update_memory_def update_one_def find_one_def Let_def split: option.splits)
  have d: "delete_memory db1 (new_object_id env) = (Inr False, db1)"
    using fs none by (simp add: delete_memory_def delete_one_def Let_def delete_first_none)
  have "new_object_id env \<in> set (memory_ids db1)"
    by (simp add: memory_ids_def ms)
  with r u d show ?thesis by simp
qed

subsection \<open>Memory search\<close>

lemma memory_score_set_similarity [simp]: "memory_score (i, set_similarity sc f) = PFloat sc"
  by (simp add: memory_score_def set_similarity_def update_conv')











lemma get_character_memories_raises:
  "0 \<le> limit \<Longrightarrow>
     get_character_memories db cid limit sort_by src = Inl e \<longleftrightarrow> fault (memories db) = Some e"
  by (auto simp: get_character_memories_def to_list_def find_coll_def
      split: sum.splits option.splits)

lemma get_character_memories_negative:
  "limit < 0 \<Longrightarrow>
     get_character_memories db cid limit sort_by src = Inl (Exn ''length must be non-negative'')"
  by (simp add: get_character_memories_def to_list_def)



lemma text_fallback_raises:
  "text_fallback env db cid q limit = Inl e \<Longrightarrow>
     get_character_memories db cid limit ''importance'' None = Inl e"
  by (auto simp: text_fallback_def split: sum.splits if_splits)

lemma text_fallback_returns:
  "fault (memories db) = None \<Longrightarrow> 0 \<le> limit \<Longrightarrow> \<exists>ms. text_fallback env db cid q limit = Inr ms"
  by (cases "text_fallback env db cid q limit")
    (auto dest!: text_fallback_raises simp: get_character_memories_raises)










section \<open>The claims\<close>

lemma retrieve_similar_returns:
  "fault coll = None \<Longrightarrow> \<exists>chunks. retrieve_similar env coll q = Inr chunks"
  by (simp add: retrieve_similar_def count_documents_def split: sum.splits)

text \<open>
  C10. \<open>retrieve_similar\<close> scores at most the first 100 documents that satisfy the
  metadata filter, in the store's iteration order: it returns at most 100 chunks, every
  returned chunk is one of those first 100, and a satisfying document at position 100 or
  later is not returned, whatever its similarity to the query. (The ids of the documents
  of a collection are distinct.)
\<close>

theorem retrieve_similar_first_100:
  assumes ret: "retrieve_similar env coll q = Inr chunks"
    and matching: "matching = filter (satisfies env (filter_query q)) (docs coll)"
    and dist: "distinct (map (\<lambda>d. str_id (fst d)) matching)"
    and i: "100 \<le> i" "i < length matching"
  shows "length chunks \<le> 100
       \<and> chunk_id ` set chunks \<subseteq> (\<lambda>d. str_id (fst d)) ` set (take 100 matching)
       \<and> str_id (fst (matching ! i)) \<notin> chunk_id ` set chunks"
proof -
  have sub: "chunk_id ` set chunks \<subseteq> (\<lambda>d. str_id (fst d)) ` set (take 100 matching)"
    and len: "length chunks \<le> 100"
    using retrieve_similar_cases [OF ret] retrieve_similar_try_ids retrieve_similar_try_length(1)
    unfolding matching by fastforce+
  have "str_id (fst (matching ! i)) \<notin> (\<lambda>d. str_id (fst d)) ` set (take 100 matching)"
  proof
    assume "str_id (fst (matching ! i)) \<in> (\<lambda>d. str_id (fst d)) ` set (take 100 matching)"
    then obtain j where j: "j < 100" "j < length matching"
      and eq: "str_id (fst (matching ! i)) = str_id (fst (matching ! j))"
      by (auto simp: in_set_conv_nth)
    from dist i j have "i \<noteq> j \<longrightarrow> str_id (fst (matching ! i)) \<noteq> str_id (fst (matching ! j))"
      by (simp add: distinct_conv_nth)
    with eq i j show False by simp
  qed
  with sub len show ?thesis by blast
qed

theorem retrieve_similar_first_100_witness:
  "\<exists>chunks. retrieve_similar example_env example_collection example_query = Inr chunks
     \<and> length chunks \<le> 100 \<and> replicate 100 (CHR ''c'') \<notin> chunk_id ` set chunks"
proof -
  obtain chunks where ret: "retrieve_similar example_env example_collection example_query = Inr chunks"
    using retrieve_similar_returns [of example_collection example_env example_query]
    by (auto simp: example_collection_def)
  have m: "docs example_collection =
      filter (satisfies example_env (filter_query example_query)) (docs example_collection)"
    by (simp add: example_env_def metadata_filter_def filter_query_def example_query_def)
  have d: "distinct (map (\<lambda>d. str_id (fst d)) (docs example_collection))"
    by (simp add: example_collection_def example_chunk_def distinct_map inj_on_def comp_def)
  have i: "(100::nat) \<le> 100" "100 < length (docs example_collection)"
    by (simp_all add: example_collection_def)
  have "str_id (fst (docs example_collection ! 100)) = replicate 100 (CHR ''c'')"
    by (simp add: example_collection_def example_chunk_def)
  with retrieve_similar_first_100 [OF ret m d i] ret show ?thesis by auto
qed





lemmas knowledge_eval =
  retrieve_similar_def retrieve_similar_try_def scored_chunks_def count_documents_def
  find_coll_def to_list_def filter_query_def get_embedding_def to_chunk_def score_chunk_def
  sort_chunks_def py_sort_reverse_def sort_reverse_def chunk_score_def num_of_def py_take_def
  cosine_eval example_env_def metadata_filter_def example_query_def scored_chunk_def

lemmas memory_eval =
  search_memories_def vector_rung_def manual_rung_def text_fallback_def text_search_def
  get_character_memories_def get_memory_def find_memory_def parse_object_id_def
  find_one_def find_coll_def update_one_def to_list_def cursor_limit_def create_embedding_def
  get_embedding_def cosine_eval py_sort_reverse_def sort_reverse_def num_of_def py_take_def
  touch_def score_result_def set_similarity_def sort_field_def memory_score_def
  example_env_def example_memory_def












subsection \<open>The pipeline\<close>

lemma ainvoke_unfold:
  "ainvoke env w s0 =
     (memory_integration env (snd (before_generation env w s0))
        (dialogue_generation env (fst (before_generation env w s0))), 5)"
  by (simp add: ainvoke_def before_generation_def split: prod.splits)

lemma memory_integration_completes:
  "completed (fst (memory_integration env w s))
   \<and> (response (fst (memory_integration env w s)) \<noteq> []
       \<or> truthy (error (fst (memory_integration env w s))))"
  by (simp add: memory_integration_def truthy_def split: prod.splits sum.splits)

lemma memory_integration_response:
  "response (fst (memory_integration env w s)) = response s"
  by (simp add: memory_integration_def split: prod.splits sum.splits)

lemma memory_integration_skips:
  "truthy (error s) \<Longrightarrow>
     memory_integration env w s = (s\<lparr>completed := True, updated_memory := []\<rparr>, w)"
  by (simp add: memory_integration_def)

lemma dialogue_generation_raises:
  assumes "llm env system_prompt (formatted_prompt env (ensure_character_info s)) = Inl e"
  shows "dialogue_generation env s =
     (ensure_character_info s)\<lparr>error := Some (''Dialogue generation error: '' @ exn_str e),
        response := apology\<rparr>"
  using assms by (simp add: dialogue_generation_def Let_def)

lemma dialogue_generation_returns:
  assumes "llm env system_prompt (formatted_prompt env (ensure_character_info s)) = Inr r"
  shows "dialogue_generation env s = (ensure_character_info s)\<lparr>response := r\<rparr>"
  using assms by (simp add: dialogue_generation_def Let_def)

lemma error_ensure_character_info [simp]: "error (ensure_character_info s) = error s"
  by (simp add: ensure_character_info_def)

text \<open>
  C1. Every run of the graph executes its five stages in the order knowledge retrieval,
  memory retrieval, context assembly, dialogue generation, memory integration, and ends
  in a state with \<open>completed\<close> set that carries a response or an error, whatever the
  stores, the embedding model and the generation provider do. This holds for every
  initial state, so for the one that \<open>generate_dialogue_response\<close> builds.
\<close>

theorem pipeline_always_completes:
  "ainvoke env w s0 =
     (memory_integration env (snd (memory_retrieval env w (knowledge_retrieval env w s0)))
        (dialogue_generation env
          (context_assembly env (fst (memory_retrieval env w (knowledge_retrieval env w s0))))), 5)
   \<and> completed (fst (fst (ainvoke env w s0)))
   \<and> (response (fst (fst (ainvoke env w s0))) \<noteq> [] \<or> truthy (error (fst (fst (ainvoke env w s0)))))"
proof -
  have "ainvoke env w s0 =
     (memory_integration env (snd (memory_retrieval env w (knowledge_retrieval env w s0)))
        (dialogue_generation env
          (context_assembly env (fst (memory_retrieval env w (knowledge_retrieval env w s0))))), 5)"
    by (simp add: ainvoke_unfold before_generation_def split: prod.splits)
  with memory_integration_completes show ?thesis by simp
qed

theorem pipeline_always_completes_witness:
  "snd (ainvoke silent_env down_world (initial_state ''hello'' ''character_thor'' None None None)) = 5
   \<and> completed (fst (fst (ainvoke silent_env down_world
        (initial_state ''hello'' ''character_thor'' None None None))))
   \<and> response (fst (fst (ainvoke silent_env down_world
        (initial_state ''hello'' ''character_thor'' None None None)))) = []
   \<and> truthy (error (fst (fst (ainvoke silent_env down_world
        (initial_state ''hello'' ''character_thor'' None None None)))))"
proof -
  have "llm silent_env sp p = Inr []" for sp p
    by (simp add: silent_env_def example_env_def)
  then have "response (dialogue_generation silent_env s) = []" for s
    by (simp add: dialogue_generation_returns)
  then have r: "response (fst (fst (ainvoke silent_env down_world
        (initial_state ''hello'' ''character_thor'' None None None)))) = []"
    by (simp add: ainvoke_unfold memory_integration_response)
  note t = pipeline_always_completes [of silent_env down_world
      "initial_state ''hello'' ''character_thor'' None None None"]
  from t have five: "snd (ainvoke silent_env down_world
      (initial_state ''hello'' ''character_thor'' None None None)) = 5"
    by (metis snd_conv)
  from t r five show ?thesis by blast
qed

lemma generation_failure_final:
  assumes "llm env system_prompt (formatted_prompt env (ensure_character_info s)) = Inl e"
    and "before_generation env w0 s0 = (s, w)"
  shows "fst (ainvoke env w0 s0) =
     ((ensure_character_info s)\<lparr>error := Some (''Dialogue generation error: '' @ exn_str e),
         response := apology, completed := True, updated_memory := []\<rparr>, w)"
  using assms
  by (simp add: ainvoke_unfold dialogue_generation_raises memory_integration_skips truthy_def)

lemma example_env_llm: "llm example_env sp p = Inl (Exn ''provider down'')"
  by (simp add: example_env_def)

lemma example_final_state:
  "fst (ainvoke example_env w0 s0) =
     ((ensure_character_info (fst (before_generation example_env w0 s0)))
        \<lparr>error := Some ''Dialogue generation error: provider down'',
         response := apology, completed := True, updated_memory := []\<rparr>,
      snd (before_generation example_env w0 s0))"
  using generation_failure_final [of example_env "fst (before_generation example_env w0 s0)"
      "Exn ''provider down''" w0 s0 "snd (before_generation example_env w0 s0)"]
  by (simp add: example_env_llm)

text \<open>
  C5. When the call of the generation provider raises, the dialogue generation stage
  returns a state: the response is the fixed apology and the error field holds the
  error. The memory integration stage then leaves the database as it found it, writes no
  memory, and sets \<open>completed\<close>; so ends every run of the graph in which the call raises.
\<close>

theorem generation_failure_skips_memory_write:
  assumes "llm env system_prompt (formatted_prompt env (ensure_character_info s)) = Inl e"
  shows "response (dialogue_generation env s) = apology
       \<and> error (dialogue_generation env s) = Some (''Dialogue generation error: '' @ exn_str e)
       \<and> memory_integration env w (dialogue_generation env s)
           = ((dialogue_generation env s)\<lparr>completed := True, updated_memory := []\<rparr>, w)
       \<and> (before_generation env w0 s0 = (s, w) \<longrightarrow>
            fst (ainvoke env w0 s0)
              = ((dialogue_generation env s)\<lparr>completed := True, updated_memory := []\<rparr>, w)
            \<and> completed (fst (fst (ainvoke env w0 s0)))
            \<and> response (fst (fst (ainvoke env w0 s0))) = apology
            \<and> snd (fst (ainvoke env w0 s0)) = w)"
proof -
  note d = dialogue_generation_raises [OF assms]
  have t: "truthy (error (dialogue_generation env s))"
    by (simp add: d truthy_def)
  have m: "memory_integration env w (dialogue_generation env s)
           = ((dialogue_generation env s)\<lparr>completed := True, updated_memory := []\<rparr>, w)"
    by (rule memory_integration_skips [OF t])
  have "fst (ainvoke env w0 s0)
      = ((dialogue_generation env s)\<lparr>completed := True, updated_memory := []\<rparr>, w)"
    if "before_generation env w0 s0 = (s, w)"
    using that m by (simp add: ainvoke_unfold)
  with m show ?thesis by (simp add: d)
qed

theorem generation_failure_skips_memory_write_witness:
  "response (fst (fst (ainvoke example_env example_world
       (initial_state ''hello'' ''character_thor'' None None None)))) = apology
   \<and> error (fst (fst (ainvoke example_env example_world
       (initial_state ''hello'' ''character_thor'' None None None))))
       = Some ''Dialogue generation error: provider down''
   \<and> completed (fst (fst (ainvoke example_env example_world
       (initial_state ''hello'' ''character_thor'' None None None))))
   \<and> snd (fst (ainvoke example_env example_world
       (initial_state ''hello'' ''character_thor'' None None None)))
       = snd (before_generation example_env example_world
           (initial_state ''hello'' ''character_thor'' None None None))"
proof -
  obtain s w where b: "before_generation example_env example_world
      (initial_state ''hello'' ''character_thor'' None None None) = (s, w)"
    by (cases "before_generation example_env example_world
      (initial_state ''hello'' ''character_thor'' None None None)")
  have l: "llm example_env system_prompt (formatted_prompt example_env (ensure_character_info s))
      = Inl (Exn ''provider down'')"
    by (rule example_env_llm)
  from generation_failure_skips_memory_write [OF l, of w example_world
      "initial_state ''hello'' ''character_thor'' None None None"] b
  show ?thesis by simp
qed

text \<open>
  C7, as amended. The caller of \<open>generate_dialogue_response\<close> always gets a response
  object, extracted from the final state of the graph. When the run ends with a recorded
  error, the message is the fixed apology followed by \<open>Error:\<close> and the text of the
  recorded error; the same text is in the \<open>error\<close> field of the object, and the lists of
  used knowledge and memories and the updated memory are empty. Without a recorded error
  the message is the generated response.
\<close>

theorem error_response_appends_error_text:
  "generate_dialogue_response env w ui cid conv pv ctx =
     (extract_response (fst (fst (ainvoke env w (initial_state ui cid conv pv ctx)))),
      snd (fst (ainvoke env w (initial_state ui cid conv pv ctx))))
   \<and> (error result = Some err \<and> err \<noteq> [] \<longrightarrow>
         rd_response (extract_response result) = apology @ '' Error: '' @ err
       \<and> rd_error (extract_response result) = Some err
       \<and> knowledge_used (extract_response result) = []
       \<and> memories_used (extract_response result) = []
       \<and> rd_updated_memory (extract_response result) = [])
   \<and> (\<not> truthy (error result) \<longrightarrow>
         rd_response (extract_response result) = response result)"
  by (simp add: generate_dialogue_response_def extract_response_def truthy_def
      split: prod.splits)

theorem error_response_appends_error_text_witness:
  "rd_response (fst (generate_dialogue_response example_env example_world
       ''hello'' ''character_thor'' None None None))
     = apology @ '' Error: Dialogue generation error: provider down''
   \<and> rd_error (fst (generate_dialogue_response example_env example_world
       ''hello'' ''character_thor'' None None None))
     = Some ''Dialogue generation error: provider down''
   \<and> knowledge_used (fst (generate_dialogue_response example_env example_world
       ''hello'' ''character_thor'' None None None)) = []"
proof -
  have e: "error (fst (fst (ainvoke example_env example_world
       (initial_state ''hello'' ''character_thor'' None None None))))
     = Some ''Dialogue generation error: provider down''"
    by (simp add: example_final_state)
  from error_response_appends_error_text [of example_env example_world "''hello''"
      "''character_thor''" None None None
      "fst (fst (ainvoke example_env example_world
         (initial_state ''hello'' ''character_thor'' None None None)))"
      "''Dialogue generation error: provider down''"] e
  show ?thesis by simp
qed

text \<open>
  C7 as stated fails: with the generation provider down, the message that the caller
  receives is not the fixed apology; it ends with the text of the error.
\<close>

theorem error_response_counterexample:
  "rd_response (fst (generate_dialogue_response example_env example_world
       ''hello'' ''character_thor'' None None None))
     = ''I'm sorry, I'm having trouble responding right now. Error: Dialogue generation error: provider down''
   \<and> rd_response (fst (generate_dialogue_response example_env example_world
       ''hello'' ''character_thor'' None None None)) \<noteq> apology"
proof -
  have e: "error (fst (fst (ainvoke example_env example_world
       (initial_state ''hello'' ''character_thor'' None None None))))
     = Some ''Dialogue generation error: provider down''"
    by (simp add: example_final_state)
  have g: "fst (generate_dialogue_response example_env example_world
       ''hello'' ''character_thor'' None None None)
     = extract_response (fst (fst (ainvoke example_env example_world
         (initial_state ''hello'' ''character_thor'' None None None))))"
    by (simp add: generate_dialogue_response_def split: prod.splits)
  show ?thesis
    by (simp add: g extract_response_def truthy_def e apology_def)
qed

subsection \<open>Context assembly\<close>

lemma startswith_append [simp]: "startswith (p @ s) p"
  by (simp add: startswith_def)

lemma contains_prefix: "startswith s sub \<Longrightarrow> contains s sub"
  by (cases s) (auto simp: startswith_def)

lemma contains_append: "contains (a @ sub @ b) sub"
proof (induction a)
  case Nil
  show ?case by (simp add: contains_prefix)
next
  case (Cons x a)
  then show ?case by simp
qed

lemma render_history_typed:
  "roles_are_strings history \<Longrightarrow> \<exists>h. render_history env history = Inr h"
proof (induction history)
  case Nil
  then show ?case by simp
next
  case (Cons msg msgs)
  then obtain h where "render_history env msgs = Inr h"
    by (auto simp: roles_are_strings_def)
  with Cons.prems show ?case
    by (auto simp: roles_are_strings_def split: pyval.splits)
qed

lemma render_history_untyped:
  "\<not> roles_are_strings history \<Longrightarrow>
     \<exists>v. render_history env history = Inl (attribute_error v ''capitalize'')"
proof (induction history)
  case Nil
  then show ?case by (simp add: roles_are_strings_def)
next
  case (Cons msg msgs)
  show ?case
  proof (cases "py_get msg ''role'' (PStr ''unknown'')")
    case (PStr r)
    with Cons.prems have "\<not> roles_are_strings msgs"
      by (simp add: roles_are_strings_def)
    with Cons.IH PStr show ?thesis by auto
  qed auto
qed

lemma history_text_typed:
  "roles_are_strings history \<Longrightarrow> \<exists>h. history_text env history = Inr h"
  using render_history_typed [of history env] by (auto simp: history_text_def)

lemma history_text_untyped:
  "\<not> roles_are_strings history \<Longrightarrow>
     \<exists>v. history_text env history = Inl (attribute_error v ''capitalize'')"
  using render_history_untyped [of history env]
  by (auto simp: history_text_def roles_are_strings_def)

lemma ensure_character_info_fields [simp]:
  "knowledge_context (ensure_character_info s) = knowledge_context s"
  "conversation_history (ensure_character_info s) = conversation_history s"
  by (simp_all add: ensure_character_info_def)

lemma context_assembly_try_sentinel:
  assumes "knowledge_context s = []" and "roles_are_strings (conversation_history s)"
  shows "\<exists>a. context_assembly_try env s = Inr a \<and> contains a no_knowledge_sentinel"
proof -
  from history_text_typed [OF assms(2)] obtain h
    where h: "history_text env (conversation_history s) = Inr h" by blast
  let ?pre = "''\<newline>CHARACTER INFORMATION:\<newline>'' @ character_text env (character_info s)
      @ ''\<newline>\<newline>KNOWLEDGE CONTEXT:\<newline>''"
  let ?post = "''\<newline>\<newline>'' @ memories_text env (character_memories s)
      @ ''\<newline>\<newline>'' @ h @ ''\<newline>\<newline>USER INPUT:\<newline>'' @ user_input s @ ''\<newline>''"
  have "context_assembly_try env s = Inr (?pre @ no_knowledge_sentinel @ ?post)"
    using assms(1) h by (simp add: context_assembly_try_def knowledge_text_def)
  moreover have "contains (?pre @ no_knowledge_sentinel @ ?post) no_knowledge_sentinel"
    by (rule contains_append)
  ultimately show ?thesis by blast
qed

lemma context_assembly_try_untyped:
  assumes "knowledge_context s = []" and "\<not> roles_are_strings (conversation_history s)"
  shows "\<exists>v. context_assembly_try env s = Inl (attribute_error v ''capitalize'')"
  using assms history_text_untyped [OF assms(2), of env]
  by (auto simp: context_assembly_try_def knowledge_text_def)

lemma context_assembly_nonempty: "assembled_context (context_assembly env s) \<noteq> []"
  by (auto simp: context_assembly_def context_assembly_try_def Let_def
      split: sum.splits)

lemma memory_retrieval_fields:
  "knowledge_context (fst (memory_retrieval env w s)) = knowledge_context s
   \<and> conversation_history (fst (memory_retrieval env w s)) = conversation_history s"
  by (simp add: memory_retrieval_def split: prod.splits sum.splits)

lemma knowledge_retrieval_failed:
  "knowledge_retrieval_try env w s = Inl e \<Longrightarrow>
     knowledge_context (knowledge_retrieval env w s) = []
     \<and> conversation_history (knowledge_retrieval env w s) = []"
  by (simp add: knowledge_retrieval_def)

text \<open>
  C6, as amended. For every pipeline state whose knowledge list is empty and whose
  history messages have strings as roles, context assembly meets no internal error and
  the assembled context contains the sentinel; this is the case whenever knowledge
  retrieval failed entirely, which leaves the history empty. The stage never aborts the
  pipeline: it returns a state with a non-empty assembled context for every input, and an
  internal error is recorded and its text, after \<open>Error assembling context:\<close>, stands in
  for the assembled block (which then does not hold the sentinel).
\<close>

theorem context_assembly_sentinel_or_error:
  "(knowledge_context s = [] \<and> roles_are_strings (conversation_history s) \<longrightarrow>
        contains (assembled_context (context_assembly env s)) no_knowledge_sentinel
      \<and> error (context_assembly env s) = error s)
   \<and> (knowledge_retrieval_try env w s0 = Inl e0 \<longrightarrow>
        contains (assembled_context (fst (before_generation env w s0))) no_knowledge_sentinel)
   \<and> assembled_context (context_assembly env s) \<noteq> []
   \<and> (context_assembly_try env (ensure_character_info s) = Inl e \<longrightarrow>
        assembled_context (context_assembly env s) = ''Error assembling context: '' @ exn_str e
      \<and> error (context_assembly env s) = Some (''Context assembly error: '' @ exn_str e))
   \<and> (knowledge_context s = [] \<and> \<not> roles_are_strings (conversation_history s) \<longrightarrow>
        (\<exists>v. context_assembly_try env (ensure_character_info s)
               = Inl (attribute_error v ''capitalize'')))"
proof -
  have typed: "contains (assembled_context (context_assembly env s)) no_knowledge_sentinel
      \<and> error (context_assembly env s) = error s"
    if "knowledge_context s = []" and "roles_are_strings (conversation_history s)" for s
  proof -
    from context_assembly_try_sentinel [of "ensure_character_info s" env] that
    obtain a where "context_assembly_try env (ensure_character_info s) = Inr a"
      and "contains a no_knowledge_sentinel"
      by auto
    then show ?thesis by (simp add: context_assembly_def Let_def)
  qed
  have failed: "contains (assembled_context (fst (before_generation env w s0))) no_knowledge_sentinel"
    if f: "knowledge_retrieval_try env w s0 = Inl e0"
  proof -
    let ?s2 = "fst (memory_retrieval env w (knowledge_retrieval env w s0))"
    from knowledge_retrieval_failed [OF f] memory_retrieval_fields [of env w "knowledge_retrieval env w s0"]
    have "knowledge_context ?s2 = []" and "roles_are_strings (conversation_history ?s2)"
      by (simp_all add: roles_are_strings_def)
    from typed [OF this] show ?thesis
      by (simp add: before_generation_def case_prod_beta)
  qed
  have raised: "assembled_context (context_assembly env s) = ''Error assembling context: '' @ exn_str e
      \<and> error (context_assembly env s) = Some (''Context assembly error: '' @ exn_str e)"
    if "context_assembly_try env (ensure_character_info s) = Inl e"
    using that by (simp add: context_assembly_def Let_def)
  have untyped: "\<exists>v. context_assembly_try env (ensure_character_info s)
          = Inl (attribute_error v ''capitalize'')"
    if "knowledge_context s = []" and "\<not> roles_are_strings (conversation_history s)"
    using context_assembly_try_untyped [of "ensure_character_info s" env] that by simp
  from typed [of s] failed raised untyped context_assembly_nonempty [of env s]
  show ?thesis by blast
qed

lemmas pipeline_eval =
  before_generation_def knowledge_retrieval_def knowledge_retrieval_try_def
  memory_retrieval_def context_assembly_def context_assembly_try_def ensure_character_info_def
  retrieve_history_def character_info_of_def fallback_character_info_def knowledge_query_for_def
  filter_character_name_def initial_state_def knowledge_text_def history_text_def
  memories_text_def character_text_def py_get_def find_one_def attribute_error_def

theorem context_assembly_sentinel_or_error_witness:
  "contains (assembled_context (context_assembly example_env
       (initial_state ''hello'' ''character_thor'' None None None))) no_knowledge_sentinel
   \<and> error (context_assembly example_env
       (initial_state ''hello'' ''character_thor'' None None None)) = None
   \<and> assembled_context (context_assembly example_env untyped_role_state)
       = (''Error assembling context: 'NoneType' object has no attribute 'capitalize'' @ [CHR 0x27])
   \<and> error (context_assembly example_env untyped_role_state)
       = Some (''Context assembly error: 'NoneType' object has no attribute 'capitalize'' @ [CHR 0x27])"
proof -
  have a: "knowledge_context (initial_state ''hello'' ''character_thor'' None None None) = []"
    "roles_are_strings (conversation_history (initial_state ''hello'' ''character_thor'' None None None))"
    "error (initial_state ''hello'' ''character_thor'' None None None) = None"
    by (simp_all add: initial_state_def roles_are_strings_def)
  have b: "knowledge_context untyped_role_state = []"
    "\<not> roles_are_strings (conversation_history untyped_role_state)"
    by (simp_all add: untyped_role_state_def initial_state_def roles_are_strings_def py_get_def)
  have c: "context_assembly_try example_env (ensure_character_info untyped_role_state)
      = Inl (attribute_error PNone ''capitalize'')"
    by (simp add: pipeline_eval untyped_role_state_def)
  have d: "exn_str (attribute_error PNone ''capitalize'')
      = [CHR 0x27] @ ''NoneType' object has no attribute 'capitalize'' @ [CHR 0x27]"
    by (simp add: attribute_error_def)
  from context_assembly_sentinel_or_error [of
      "initial_state ''hello'' ''character_thor'' None None None" example_env example_world
      "initial_state ''hello'' ''character_thor'' None None None" "Exn ''x''" "Exn ''y''"]
    context_assembly_sentinel_or_error [of untyped_role_state example_env example_world
      "initial_state ''hello'' ''character_thor'' None None None" "Exn ''x''"
      "attribute_error PNone ''capitalize''"]
    a b c d
  show ?thesis by simp
qed

text \<open>
  C6 as stated fails for a state with an empty knowledge list in whose history a message
  has the role \<open>None\<close>: the assembled context is the text of the internal error, without
  the sentinel. The pipeline reaches such a state from a stored conversation.
\<close>

theorem context_assembly_counterexample:
  "knowledge_context untyped_role_state = []
   \<and> assembled_context (context_assembly example_env untyped_role_state)
       = (''Error assembling context: 'NoneType' object has no attribute 'capitalize'' @ [CHR 0x27])
   \<and> \<not> contains (assembled_context (context_assembly example_env untyped_role_state))
         no_knowledge_sentinel
   \<and> knowledge_context (fst (before_generation example_env untyped_role_world
         (initial_state ''hello'' ''character_thor'' (Some ''conv1'') None None))) = []
   \<and> assembled_context (fst (before_generation example_env untyped_role_world
         (initial_state ''hello'' ''character_thor'' (Some ''conv1'') None None)))
       = (''Error assembling context: 'NoneType' object has no attribute 'capitalize'' @ [CHR 0x27])"
proof -
  have a: "assembled_context (context_assembly example_env untyped_role_state)
       = (''Error assembling context: 'NoneType' object has no attribute 'capitalize'' @ [CHR 0x27])"
    by (simp add: pipeline_eval untyped_role_state_def)
  have b: "\<not> contains (''Error assembling context: 'NoneType' object has no attribute 'capitalize'' @ [CHR 0x27])
      no_knowledge_sentinel"
    by (simp add: startswith_def no_knowledge_sentinel_def)
  have c: "knowledge_context (fst (before_generation example_env untyped_role_world
         (initial_state ''hello'' ''character_thor'' (Some ''conv1'') None None))) = []
     \<and> assembled_context (fst (before_generation example_env untyped_role_world
         (initial_state ''hello'' ''character_thor'' (Some ''conv1'') None None)))
       = (''Error assembling context: 'NoneType' object has no attribute 'capitalize'' @ [CHR 0x27])"
    by (simp add: pipeline_eval knowledge_eval memory_eval untyped_role_world_def empty_store_def
        startswith_def split: prod.splits)
  from a b c show ?thesis
    by (simp add: untyped_role_state_def initial_state_def)
qed

subsection \<open>The knowledge filter\<close>

lemma replace_from_absent: "\<not> contains s old \<Longrightarrow> replace_from old new s = s"
  by (induction s) auto

lemma replace_from_prefix:
  "old \<noteq> [] \<Longrightarrow> replace_from old new (old @ rest) = new @ replace_from old new rest"
  by (cases old) (auto simp: startswith_def)

lemma startswith_split: "startswith s p \<Longrightarrow> s = p @ drop (length p) s"
  by (metis append_take_drop_id startswith_def)

lemma strip_prefix_agrees:
  assumes "startswith cid ''character_''"
    and "\<not> contains (drop (length ''character_'') cid) ''character_''"
  shows "py_replace cid ''character_'' [] = drop (length ''character_'') cid"
proof -
  from startswith_split [OF assms(1)]
  have "replace_from ''character_'' [] cid
      = replace_from ''character_'' [] (''character_'' @ drop (length ''character_'') cid)"
    by simp
  also have "\<dots> = [] @ replace_from ''character_'' [] (drop (length ''character_'') cid)"
    by (rule replace_from_prefix) simp
  also have "\<dots> = drop (length ''character_'') cid"
    using replace_from_absent [OF assms(2)] by simp
  finally show ?thesis by (simp add: py_replace_def)
qed

lemmas string_eval =
  filter_character_name_def startswith_def py_title_def py_replace_def is_alpha_def
  to_upper_def to_lower_def lower_letters_def upper_letters_def strip_prefix_name_def
  is_ascii_def

text \<open>
  Where \<open>character_\<close> occurs in the id as its prefix only, the stage filters by the name
  of the prefix-stripped id; \<open>character_iron_man\<close> gives \<open>Iron Man\<close>. For any other id it
  filters by the name of the character profile: the name of the character record, or the
  id itself when the record has no name or there is no record. The similarity search is
  called with this filter and \<open>top_k = 5\<close>, and its chunks become the knowledge context.
\<close>

lemma knowledge_filter_name_prefix_only:
  "(startswith cid ''character_'' \<and> \<not> contains (drop (length ''character_'') cid) ''character_'' \<longrightarrow>
       filter_character_name env cid info = PStr (strip_prefix_name env cid))
   \<and> filter_character_name env ''character_iron_man'' info = PStr ''Iron Man''
   \<and> (\<not> startswith cid ''character_'' \<longrightarrow>
       filter_character_name env cid (character_info_of cid found)
         = (case found of Some r \<Rightarrow> py_get r ''name'' (PStr cid) | None \<Rightarrow> PStr cid))
   \<and> top_k (knowledge_query_for env s info) = 5
   \<and> filter_metadata (knowledge_query_for env s info)
       = Some [(''character'', filter_character_name env (character_id s) info)]
   \<and> (knowledge_retrieval_try env w s = Inr s' \<longrightarrow>
       (\<exists>doc chunks.
          find_one (characters w) (\<lambda>d. fst d = StrId (character_id s)) = Inr doc
          \<and> retrieve_similar env (knowledge_chunks w)
              (knowledge_query_for env s (character_info_of (character_id s) (map_option snd doc)))
              = Inr chunks
          \<and> knowledge_context s' = map chunk_dict chunks))"
proof -
  have stripped: "filter_character_name env cid info = PStr (strip_prefix_name env cid)"
    if "startswith cid ''character_''"
      and "\<not> contains (drop (length ''character_'') cid) ''character_''"
    using that strip_prefix_agrees [OF that]
    by (simp add: strip_prefix_name_def filter_character_name_def)
  have iron: "filter_character_name env ''character_iron_man'' info = PStr ''Iron Man''"
    by (simp add: string_eval)
  have other: "filter_character_name env cid (character_info_of cid found)
         = (case found of Some r \<Rightarrow> py_get r ''name'' (PStr cid) | None \<Rightarrow> PStr cid)"
    if "\<not> startswith cid ''character_''"
    using that
    by (simp add: filter_character_name_def character_info_of_def py_get_def split: option.splits)
  have query: "top_k (knowledge_query_for env s info) = 5"
    "filter_metadata (knowledge_query_for env s info)
       = Some [(''character'', filter_character_name env (character_id s) info)]"
    by (simp_all add: knowledge_query_for_def)
  have stage: "\<exists>doc chunks.
          find_one (characters w) (\<lambda>d. fst d = StrId (character_id s)) = Inr doc
          \<and> retrieve_similar env (knowledge_chunks w)
              (knowledge_query_for env s (character_info_of (character_id s) (map_option snd doc)))
              = Inr chunks
          \<and> knowledge_context s' = map chunk_dict chunks"
    if "knowledge_retrieval_try env w s = Inr s'"
    using that
    by (auto simp: knowledge_retrieval_try_def Let_def split: sum.splits)
  from stripped iron other query stage show ?thesis by blast
qed

text \<open>
  The stage on the example database: the id \<open>character_thor\<close> gives the filter name
  \<open>Thor\<close>, and the three chunks about Thor come back in descending order of their
  scores.
\<close>

lemma knowledge_retrieval_example:
  "map (\<lambda>d. py_get d ''id'' PNone) (knowledge_context (knowledge_retrieval example_env example_world
       (initial_state ''hello'' ''character_thor'' None None None)))
     = [PStr ''k2'', PStr ''k1'', PStr ''k3'']"
  by (simp add: pipeline_eval knowledge_eval string_eval example_world_def three_chunks_def
      chunk_dict_def)

text \<open>
  C9. At the character id \<open>character_a_character_b\<close>, which begins with the prefix, the
  knowledge retrieval stage does not filter by the name of the prefix-stripped id:
  \<open>replace\<close> removes the later occurrence of \<open>character_\<close> as well, so the filter of the
  similarity search names \<open>A B\<close>, where stripping the prefix, replacing the underscores
  and title-casing gives \<open>A Character B\<close>.
\<close>

theorem knowledge_filter_name_removes_later_occurrence:
  "startswith ''character_a_character_b'' ''character_''
   \<and> filter_character_name env ''character_a_character_b'' info = PStr ''A B''
   \<and> strip_prefix_name env ''character_a_character_b'' = ''A Character B''
   \<and> filter_metadata (knowledge_query_for env
         (initial_state ui ''character_a_character_b'' conv pv ctx) info)
       = Some [(''character'', PStr ''A B'')]
   \<and> top_k (knowledge_query_for env
         (initial_state ui ''character_a_character_b'' conv pv ctx) info) = 5"
  by (simp add: string_eval knowledge_query_for_def initial_state_def)

end
